theory Spec2Isabelle
  imports Complex_Main "HOL-Library.Sublist"
begin

section \<open>Values, exceptions and the environment\<close>

text \<open>
  The client of \<^verbatim>\<open>text2speech_skill/cli.py\<close> talks to three things it does not
  control: the clock (\<^verbatim>\<open>time.time\<close>, \<^verbatim>\<open>time.sleep\<close>), the HTTP service
  (\<^verbatim>\<open>requests.Session\<close>) and the local file system. They are modelled by an
  immutable environment \<open>env\<close> (what the outside answers) and a \<open>world\<close> that
  the functions pass along (what has happened so far). Python exceptions are values:
  a method returns \<open>(exn + 'a) \<times> world\<close>, with \<open>Inl\<close> the raised exception.
  The polling loop may run forever, so it and its callers return an \<open>option\<close>,
  with \<open>None\<close> for a run that never returns.

  A Python \<^verbatim>\<open>str\<close> is a \<open>string\<close> holding the bytes of its UTF-8 encoding (the
  characters of the ASCII range are single bytes). Paths are those of POSIX. Times are
  rationals (seconds); floating-point rounding is not modelled.
\<close>

type_synonym path = string

text \<open>
  A decoded JSON document, as \<^verbatim>\<open>resp.json()\<close> returns it: \<open>JInt\<close> is an
  \<^verbatim>\<open>int\<close>, \<open>JNum\<close> a \<^verbatim>\<open>float\<close>.
\<close>

datatype json =
    JNull
  | JBool bool
  | JInt int
  | JNum rat
  | JStr string
  | JArr "json list"
  | JObj "(string \<times> json) list"

text \<open>
  The exceptions the modelled code can raise. All of them are subclasses of Python's
  \<^verbatim>\<open>Exception\<close>, so an \<^verbatim>\<open>except Exception\<close> clause catches each one.
  \<^verbatim>\<open>SystemExit\<close> (raised by \<^verbatim>\<open>sys.exit\<close>) is not: it is kept apart, in
  \<open>failure\<close>.
\<close>

datatype exn =
    TimeoutError string
  | ConnectionError string
  | HTTPError string
  | JSONDecodeError string
  | KeyError string
  | TypeError string
  | AttributeError string
  | ValueError string
  | FileNotFoundError string
  | UnicodeDecodeError string

datatype failure = Uncaught exn | SystemExit nat

text \<open>A text between single quotes.\<close>

definition quote :: "string \<Rightarrow> string" where
  "quote s = [CHR 0x27] @ s @ [CHR 0x27]"

text \<open>
  \<^verbatim>\<open>str(e)\<close>: the message; for a \<^verbatim>\<open>KeyError\<close> the \<^verbatim>\<open>repr\<close> of the key (the keys
  of the source are plain words, which \<^verbatim>\<open>repr\<close> puts between single quotes).
\<close>

fun str_exn :: "exn \<Rightarrow> string" where
  "str_exn (TimeoutError m) = m"
| "str_exn (ConnectionError m) = m"
| "str_exn (HTTPError m) = m"
| "str_exn (JSONDecodeError m) = m"
| "str_exn (KeyError k) = quote k"
| "str_exn (TypeError m) = m"
| "str_exn (AttributeError m) = m"
| "str_exn (ValueError m) = m"
| "str_exn (FileNotFoundError m) = m"
| "str_exn (UnicodeDecodeError m) = m"

text \<open>
  The exit status of the process, as the interpreter sets it: 0 when the command
  returns, the argument of \<^verbatim>\<open>sys.exit\<close>, and 1 for an uncaught exception.
\<close>

fun exit_code :: "failure + 'a \<Rightarrow> nat" where
  "exit_code (Inr _) = 0"
| "exit_code (Inl (SystemExit n)) = n"
| "exit_code (Inl (Uncaught _)) = 1"

datatype body =
    NoBody
  | JsonBody json
  | Multipart "(string \<times> string) list" "(string \<times> string) list"

datatype request = GET string | POST string body

text \<open>
  What the service answers: no answer at all (\<^verbatim>\<open>requests\<close> raises, with a message),
  or a reply with its status code, reason phrase, the outcome of \<^verbatim>\<open>resp.json()\<close>
  (a decoding error message or the document) and the raw content.
\<close>

datatype response =
    Unreachable string
  | Reply nat string "string + json" string

text \<open>
  A progress callback receives the list of the statuses it has been given before and
  the current status. It raises or returns; since the status is a mutable dictionary
  passed by reference, it returns the status as it has left it, together with what it
  has printed and the time that the call has taken (in seconds), which the clock has
  moved by when the caller goes on.
\<close>

type_synonym callback = "json list \<Rightarrow> json \<Rightarrow> (exn + json) \<times> string list \<times> rat"

text \<open>
  The environment: \<open>drift k\<close> is the time that passes, beyond the explicit sleeps and
  the calls of a progress callback, between the previous reading of the clock and
  reading number \<open>k\<close> (the time that the statements of the program and its requests
  take); \<open>respond n q\<close> is the answer to request \<open>q\<close> when \<open>n\<close> requests have been
  issued before it. Four library functions are parameters: Python's \<^verbatim>\<open>str()\<close> on a
  JSON value that is not a string (\<open>py_str\<close>), \<^verbatim>\<open>repr()\<close> of a path, as the message
  of an \<^verbatim>\<open>OSError\<close> shows it (\<open>py_repr\<close>), \<^verbatim>\<open>json.dump(..., indent=2)\<close>
  (\<open>dumps\<close>), and the text of \<^verbatim>\<open>int(progress * 100)\<close> for a truthy JSON value,
  which may also raise (\<open>percent\<close>).
\<close>

record env =
  drift :: "nat \<Rightarrow> rat"
  respond :: "nat \<Rightarrow> request \<Rightarrow> response"
  py_str :: "json \<Rightarrow> string"
  py_repr :: "string \<Rightarrow> string"
  dumps :: "json \<Rightarrow> string"
  percent :: "json \<Rightarrow> exn + string"

record world =
  now :: rat
  time_calls :: nat
  http_log :: "(request \<times> response) list"
  cb_calls :: "json list"
  fs :: "path \<rightharpoonup> string"
  stdout :: "string list"
  stderr :: "string list"

section \<open>Python's built-in operations on the values\<close>

text \<open>Decimal rendering of a natural number, as an f-string prints an \<^verbatim>\<open>int\<close>.\<close>

fun str_nat :: "nat \<Rightarrow> string" where
  "str_nat n =
     (if n < 10 then [char_of (48 + n)]
      else str_nat (n div 10) @ [char_of (48 + n mod 10)])"

declare str_nat.simps [simp del]

text \<open>Truthiness (\<^verbatim>\<open>if x:\<close>) of a JSON value and of an optional string.\<close>

fun truthy :: "json \<Rightarrow> bool" where
  "truthy JNull = False"
| "truthy (JBool b) = b"
| "truthy (JInt i) = (i \<noteq> 0)"
| "truthy (JNum r) = (r \<noteq> 0)"
| "truthy (JStr s) = (s \<noteq> [])"
| "truthy (JArr xs) = (xs \<noteq> [])"
| "truthy (JObj kvs) = (kvs \<noteq> [])"

fun truthy_opt :: "string option \<Rightarrow> bool" where
  "truthy_opt None = False"
| "truthy_opt (Some s) = (s \<noteq> [])"

text \<open>The name of the Python type of a JSON value, as the messages of exceptions show it.\<close>

fun type_name :: "json \<Rightarrow> string" where
  "type_name JNull = ''NoneType''"
| "type_name (JBool b) = ''bool''"
| "type_name (JInt i) = ''int''"
| "type_name (JNum r) = ''float''"
| "type_name (JStr s) = ''str''"
| "type_name (JArr xs) = ''list''"
| "type_name (JObj kvs) = ''dict''"

definition no_attribute :: "json \<Rightarrow> string \<Rightarrow> exn" where
  "no_attribute v name =
     AttributeError (quote (type_name v) @ '' object has no attribute '' @ quote name)"

text \<open>
  \<^verbatim>\<open>d[key]\<close>: the value under the key of a dictionary, \<^verbatim>\<open>KeyError\<close> when the key
  is missing, \<^verbatim>\<open>TypeError\<close> when \<open>d\<close> is no dictionary (a string key indexes
  neither a list nor a string, and the other values cannot be indexed). The messages
  are those of Python 3.11.
\<close>

fun subscript :: "json \<Rightarrow> string \<Rightarrow> exn + json" where
  "subscript (JObj kvs) key =
     (case map_of kvs key of None \<Rightarrow> Inl (KeyError key) | Some v \<Rightarrow> Inr v)"
| "subscript (JArr xs) key = Inl (TypeError ''list indices must be integers or slices, not str'')"
| "subscript (JStr s) key =
     Inl (TypeError (''string indices must be integers, not '' @ quote ''str''))"
| "subscript v key = Inl (TypeError (quote (type_name v) @ '' object is not subscriptable''))"

text \<open>\<^verbatim>\<open>d.get(key, default)\<close>: only a dictionary has the method.\<close>

fun dict_get :: "json \<Rightarrow> string \<Rightarrow> json \<Rightarrow> exn + json" where
  "dict_get (JObj kvs) key dflt =
     (case map_of kvs key of None \<Rightarrow> Inr dflt | Some v \<Rightarrow> Inr v)"
| "dict_get v key dflt = Inl (no_attribute v ''get'')"

text \<open>
  The text an f-string puts for a JSON value: a string stands for itself, any other
  value is rendered by \<^verbatim>\<open>str()\<close>.
\<close>

definition fmt :: "env \<Rightarrow> json \<Rightarrow> string" where
  "fmt env v = (case v of JStr s \<Rightarrow> s | _ \<Rightarrow> py_str env v)"

text \<open>
  The characters of a text, each as the bytes of its encoding: in UTF-8 the bytes
  \<^verbatim>\<open>0x80\<close> to \<^verbatim>\<open>0xBF\<close> continue a character and every other byte starts one.
  \<open>take_chars n\<close> is the slice \<^verbatim>\<open>s[:n]\<close>.
\<close>

definition is_cont :: "char \<Rightarrow> bool" where
  "is_cont c = (128 \<le> (of_char c :: nat) \<and> (of_char c :: nat) < 192)"

definition points :: "string \<Rightarrow> string list" where
  "points s =
     (case foldr (\<lambda>c (pend, acc). if is_cont c then (c # pend, acc) else ([], (c # pend) # acc))
             s ([], []) of
        (pend, acc) \<Rightarrow> if pend = [] then acc else pend # acc)"

definition take_chars :: "nat \<Rightarrow> string \<Rightarrow> string" where
  "take_chars n s = concat (take n (points s))"

text \<open>
  \<^verbatim>\<open>s.strip()\<close> removes the white space at both ends. The characters that
  \<^verbatim>\<open>str.isspace\<close> holds of (Python 3.11) are U+0009 to U+000D, U+001C to U+0020,
  U+0085, U+00A0, U+1680, U+2000 to U+200A, U+2028, U+2029, U+202F, U+205F and U+3000.
\<close>

definition spaces :: "string list" where
  "spaces =
     map (\<lambda>b. [char_of b]) ([0x09, 0x0A, 0x0B, 0x0C, 0x0D, 0x1C, 0x1D, 0x1E, 0x1F, 0x20] :: nat list)
     @ [[CHR 0xC2, CHR 0x85], [CHR 0xC2, CHR 0xA0], [CHR 0xE1, CHR 0x9A, CHR 0x80]]
     @ map (\<lambda>b. [CHR 0xE2, CHR 0x80, char_of b])
         ([0x80, 0x81, 0x82, 0x83, 0x84, 0x85, 0x86, 0x87, 0x88, 0x89, 0x8A, 0xA8, 0xA9, 0xAF]
            :: nat list)
     @ [[CHR 0xE2, CHR 0x81, CHR 0x9F], [CHR 0xE3, CHR 0x80, CHR 0x80]]"

definition is_space :: "string \<Rightarrow> bool" where
  "is_space c = (c \<in> set spaces)"

definition strip :: "string \<Rightarrow> string" where
  "strip s = concat (rev (dropWhile is_space (rev (dropWhile is_space (points s)))))"

text \<open>\<^verbatim>\<open>s.rstrip('/')\<close>.\<close>

definition rstrip_slash :: "string \<Rightarrow> string" where
  "rstrip_slash s = rev (dropWhile (\<lambda>c. c = CHR ''/'') (rev s))"

text \<open>
  \<^verbatim>\<open>pathlib\<close>, for POSIX paths. \<open>Path s\<close> is \<^verbatim>\<open>str(Path(s))\<close>: the root (one
  slash, or two when the path starts with exactly two) followed by the components
  between the slashes, without the empty ones and the dots, joined by single slashes;
  a path with neither is a dot. \<open>path_div p q\<close> is \<^verbatim>\<open>str(Path(p) / q)\<close> and
  \<open>path_name p\<close> is \<^verbatim>\<open>Path(p).name\<close>.
\<close>

fun split_slash :: "string \<Rightarrow> string list" where
  "split_slash [] = [[]]"
| "split_slash (c # cs) =
     (if c = CHR ''/'' then [] # split_slash cs
      else (case split_slash cs of [] \<Rightarrow> [[c]] | x # xs \<Rightarrow> (c # x) # xs))"

fun join_slash :: "string list \<Rightarrow> string" where
  "join_slash [] = []"
| "join_slash [x] = x"
| "join_slash (x # y # zs) = x @ ''/'' @ join_slash (y # zs)"

definition path_root :: "string \<Rightarrow> string" where
  "path_root s =
     (if prefix ''//'' s \<and> \<not> prefix ''///'' s then ''//''
      else if prefix ''/'' s then ''/''
      else [])"

definition path_parts :: "string \<Rightarrow> string list" where
  "path_parts s = filter (\<lambda>x. x \<noteq> [] \<and> x \<noteq> ''.'') (split_slash s)"

definition path_str :: "string \<Rightarrow> string list \<Rightarrow> path" where
  "path_str anchor names =
     (if anchor = [] \<and> names = [] then ''.'' else anchor @ join_slash names)"

definition Path :: "string \<Rightarrow> path" where
  "Path s = path_str (path_root s) (path_parts s)"

definition path_div :: "path \<Rightarrow> string \<Rightarrow> path" where
  "path_div p q =
     (if prefix ''/'' q then Path q
      else path_str (path_root p) (path_parts p @ path_parts q))"

definition path_name :: "path \<Rightarrow> string" where
  "path_name p = (case path_parts p of [] \<Rightarrow> [] | x # xs \<Rightarrow> last (x # xs))"

section \<open>The primitives: clock, output, files, HTTP\<close>

text \<open>\<^verbatim>\<open>time.time()\<close>: the clock has moved by the drift of this reading.\<close>

definition time_time :: "env \<Rightarrow> world \<Rightarrow> rat \<times> world" where
  "time_time env w =
     (let t = now w + drift env (time_calls w)
      in (t, w\<lparr>now := t, time_calls := Suc (time_calls w)\<rparr>))"

text \<open>\<^verbatim>\<open>time.sleep(d)\<close>: a negative length raises, otherwise the clock moves by \<open>d\<close>.\<close>

definition time_sleep :: "rat \<Rightarrow> world \<Rightarrow> (exn + unit) \<times> world" where
  "time_sleep d w =
     (if d < 0 then (Inl (ValueError ''sleep length must be non-negative''), w)
      else (Inr (), w\<lparr>now := now w + d\<rparr>))"

text \<open>
  \<^verbatim>\<open>print(s, end=e)\<close> to standard output and \<^verbatim>\<open>print(s, file=sys.stderr)\<close>: one
  entry of the log for each call, the text with its terminator.
\<close>

definition newline :: string where
  "newline = [CHR 0x0A]"

definition print_end :: "string \<Rightarrow> string \<Rightarrow> world \<Rightarrow> world" where
  "print_end s e w = w\<lparr>stdout := stdout w @ [s @ e]\<rparr>"

definition print :: "string \<Rightarrow> world \<Rightarrow> world" where
  "print s w = print_end s newline w"

definition print_err :: "string \<Rightarrow> world \<Rightarrow> world" where
  "print_err s w = w\<lparr>stderr := stderr w @ [s @ newline]\<rparr>"

text \<open>
  Writing a file (\<^verbatim>\<open>open(p, 'w')\<close> after \<^verbatim>\<open>mkdir(parents=True, exist_ok=True)\<close>)
  stores the content under the path; directories and permissions are not modelled, a
  write succeeds. \<^verbatim>\<open>os.path.exists\<close> is membership of the path.
\<close>

definition write_file :: "path \<Rightarrow> string \<Rightarrow> world \<Rightarrow> world" where
  "write_file p content w = w\<lparr>fs := (fs w)(p \<mapsto> content)\<rparr>"

definition path_exists :: "world \<Rightarrow> path \<Rightarrow> bool" where
  "path_exists w p = (fs w p \<noteq> None)"

text \<open>
  \<^verbatim>\<open>session.get\<close> and \<^verbatim>\<open>session.post\<close>: the request and its answer are logged; no
  answer raises. \<^verbatim>\<open>raise_for_status\<close> raises for the codes 400 to 599.
\<close>

definition send :: "env \<Rightarrow> request \<Rightarrow> world \<Rightarrow> (exn + response) \<times> world" where
  "send env q w =
     (let r = respond env (length (http_log w)) q;
          w' = w\<lparr>http_log := http_log w @ [(q, r)]\<rparr>
      in case r of
           Unreachable m \<Rightarrow> (Inl (ConnectionError m), w')
         | Reply code reason doc content \<Rightarrow> (Inr r, w'))"

definition session_get :: "env \<Rightarrow> string \<Rightarrow> world \<Rightarrow> (exn + response) \<times> world" where
  "session_get env url w = send env (GET url) w"

definition session_post :: "env \<Rightarrow> string \<Rightarrow> body \<Rightarrow> world \<Rightarrow> (exn + response) \<times> world" where
  "session_post env url b w = send env (POST url b) w"

fun raise_for_status :: "string \<Rightarrow> response \<Rightarrow> exn + unit" where
  "raise_for_status url (Reply code reason doc content) =
     (if 400 \<le> code \<and> code < 500
        then Inl (HTTPError (str_nat code @ '' Client Error: '' @ reason @ '' for url: '' @ url))
      else if 500 \<le> code \<and> code < 600
        then Inl (HTTPError (str_nat code @ '' Server Error: '' @ reason @ '' for url: '' @ url))
      else Inr ())"
| "raise_for_status url (Unreachable m) = Inl (ConnectionError m)"

fun resp_json :: "response \<Rightarrow> exn + json" where
  "resp_json (Reply code reason doc content) =
     (case doc of Inl m \<Rightarrow> Inl (JSONDecodeError m) | Inr j \<Rightarrow> Inr j)"
| "resp_json (Unreachable m) = Inl (ConnectionError m)"

fun resp_content :: "response \<Rightarrow> string" where
  "resp_content (Reply code reason doc content) = content"
| "resp_content (Unreachable m) = []"

section \<open>The API client: \<^verbatim>\<open>Text2SpeechClient\<close>\<close>

text \<open>
  Every method takes \<^verbatim>\<open>self.base_url\<close> as \<open>base_url\<close>; the constructor strips the
  trailing slashes of the address it is given. The commands always construct the
  client with the default address \<open>API_BASE\<close>.
\<close>

definition API_BASE :: string where
  "API_BASE = ''https://mc.agaii.org/TTS/api/v1''"

definition init_base_url :: "string \<Rightarrow> string" where
  "init_base_url base_url = rstrip_slash base_url"

text \<open>
  The two lines that end each submission: \<^verbatim>\<open>resp.raise_for_status()\<close> and
  \<^verbatim>\<open>return resp.json()["job_id"]\<close>. The methods are annotated to return a string
  and nothing checks it; the job id is only ever put into f-strings, so the value is
  returned as those f-strings print it.
\<close>

definition job_id_of :: "env \<Rightarrow> string \<Rightarrow> response \<Rightarrow> exn + string" where
  "job_id_of env url resp =
     (case raise_for_status url resp of
        Inl e \<Rightarrow> Inl e
      | Inr _ \<Rightarrow>
         (case resp_json resp of
            Inl e \<Rightarrow> Inl e
          | Inr j \<Rightarrow>
             (case subscript j ''job_id'' of
                Inl e \<Rightarrow> Inl e
              | Inr v \<Rightarrow> Inr (fmt env v))))"

definition post_job :: "env \<Rightarrow> string \<Rightarrow> body \<Rightarrow> world \<Rightarrow> (exn + string) \<times> world" where
  "post_job env url b w =
     (case session_post env url b w of
        (Inl e, w1) \<Rightarrow> (Inl e, w1)
      | (Inr resp, w1) \<Rightarrow> (job_id_of env url resp, w1))"

text \<open>The entry an optional argument adds to a payload: none unless it is truthy.\<close>

fun opt_json :: "string \<Rightarrow> string option \<Rightarrow> (string \<times> json) list" where
  "opt_json key None = []"
| "opt_json key (Some s) = (if s \<noteq> [] then [(key, JStr s)] else [])"

fun opt_data :: "string \<Rightarrow> string option \<Rightarrow> (string \<times> string) list" where
  "opt_data key None = []"
| "opt_data key (Some s) = (if s \<noteq> [] then [(key, s)] else [])"

definition custom_voice ::
  "env \<Rightarrow> string \<Rightarrow> string \<Rightarrow> string \<Rightarrow> string \<Rightarrow> string option \<Rightarrow> world
    \<Rightarrow> (exn + string) \<times> world" where
  "custom_voice env base_url text speaker language instruct w =
     post_job env (base_url @ ''/tts/custom-voice'')
       (JsonBody (JObj ([(''text'', JStr text), (''speaker'', JStr speaker),
                         (''language'', JStr language)] @ opt_json ''instruct'' instruct))) w"

definition voice_design ::
  "env \<Rightarrow> string \<Rightarrow> string \<Rightarrow> string \<Rightarrow> string \<Rightarrow> world \<Rightarrow> (exn + string) \<times> world" where
  "voice_design env base_url text instruct language w =
     post_job env (base_url @ ''/tts/voice-design'')
       (JsonBody (JObj [(''text'', JStr text), (''instruct'', JStr instruct),
                        (''language'', JStr language)])) w"

text \<open>
  \<^verbatim>\<open>voice_clone\<close> opens the reference audio first; a path that does not exist raises
  there, with the message of the operating system and the \<^verbatim>\<open>repr\<close> of the path. The
  file is the \<^verbatim>\<open>audio\<close> part of the multipart request.
\<close>

definition voice_clone ::
  "env \<Rightarrow> string \<Rightarrow> string \<Rightarrow> path \<Rightarrow> string \<Rightarrow> string option \<Rightarrow> bool \<Rightarrow> string option
    \<Rightarrow> world \<Rightarrow> (exn + string) \<times> world" where
  "voice_clone env base_url text audio_path language ref_text x_vector_only instruct w =
     (case fs w audio_path of
        None \<Rightarrow>
          (Inl (FileNotFoundError (''[Errno 2] No such file or directory: ''
                                     @ py_repr env audio_path)), w)
      | Some audio \<Rightarrow>
          post_job env (base_url @ ''/tts/voice-clone'')
            (Multipart [(''audio'', audio)]
               ([(''text'', text), (''language'', language),
                 (''x_vector_only_mode'', if x_vector_only then ''true'' else ''false''),
                 (''consent_acknowledged'', ''true'')]
                @ opt_data ''ref_text'' ref_text @ opt_data ''instruct'' instruct)) w)"

definition voice_clone_with_timbre ::
  "env \<Rightarrow> string \<Rightarrow> string \<Rightarrow> string \<Rightarrow> string \<Rightarrow> string option \<Rightarrow> world
    \<Rightarrow> (exn + string) \<times> world" where
  "voice_clone_with_timbre env base_url text timbre_speaker language instruct w =
     post_job env (base_url @ ''/tts/custom-voice'')
       (JsonBody (JObj ([(''text'', JStr text), (''speaker'', JStr timbre_speaker),
                         (''language'', JStr language), (''mode'', JStr ''clone'')]
                        @ opt_json ''instruct'' instruct))) w"


definition status_url :: "string \<Rightarrow> string \<Rightarrow> string" where
  "status_url base_url job_id = base_url @ ''/jobs/'' @ job_id @ ''/status''"

definition get_job_status :: "env \<Rightarrow> string \<Rightarrow> string \<Rightarrow> world \<Rightarrow> (exn + json) \<times> world" where
  "get_job_status env base_url job_id w =
     (case session_get env (status_url base_url job_id) w of
        (Inl e, w1) \<Rightarrow> (Inl e, w1)
      | (Inr resp, w1) \<Rightarrow>
         (case raise_for_status (status_url base_url job_id) resp of
            Inl e \<Rightarrow> (Inl e, w1)
          | Inr _ \<Rightarrow> (resp_json resp, w1)))"

text \<open>
  \<^verbatim>\<open>download_audio\<close>: the address is completed in two cases, fetched, and the content
  written. The commands pass \<^verbatim>\<open>status["audio_url"]\<close>, any truthy JSON value; only
  a string has \<^verbatim>\<open>startswith\<close>.
\<close>

definition download_audio :: "env \<Rightarrow> string \<Rightarrow> json \<Rightarrow> path \<Rightarrow> world \<Rightarrow> (exn + unit) \<times> world" where
  "download_audio env base_url audio_url output_path w =
     (case audio_url of
        JStr u \<Rightarrow>
          (let url = (if prefix ''/'' u then base_url @ u
                      else if \<not> prefix ''http'' u then base_url @ ''/'' @ u
                      else u)
           in case session_get env url w of
                (Inl e, w1) \<Rightarrow> (Inl e, w1)
              | (Inr resp, w1) \<Rightarrow>
                 (case raise_for_status url resp of
                    Inl e \<Rightarrow> (Inl e, w1)
                  | Inr _ \<Rightarrow> (Inr (), write_file output_path (resp_content resp) w1)))
      | _ \<Rightarrow> (Inl (no_attribute audio_url ''startswith''), w))"

text \<open>
  \<^verbatim>\<open>if progress_callback: progress_callback(status)\<close>. A callback that is absent (or
  falsy) is \<open>None\<close>. The call is logged in \<open>cb_calls\<close> with the status it was given,
  and the clock has moved by the time the call has taken, whether it returns or raises.
\<close>

definition run_callback :: "callback option \<Rightarrow> json \<Rightarrow> world \<Rightarrow> (exn + json) \<times> world" where
  "run_callback progress_callback status w =
     (case progress_callback of
        None \<Rightarrow> (Inr status, w)
      | Some f \<Rightarrow>
         (case f (cb_calls w) status of
            (r, out, d) \<Rightarrow>
              (r, w\<lparr>now := now w + d, cb_calls := cb_calls w @ [status],
                    stdout := stdout w @ out\<rparr>)))"

definition terminal_states :: "json list" where
  "terminal_states = [JStr ''completed'', JStr ''failed'', JStr ''cancelled'']"

text \<open>
  The \<^verbatim>\<open>while\<close> loop of \<^verbatim>\<open>wait_for_completion\<close>, from its condition. It need not
  end (a zero poll interval and a clock that stands still), hence the option.
\<close>

partial_function (option) wait_loop ::
  "env \<Rightarrow> string \<Rightarrow> string \<Rightarrow> rat \<Rightarrow> rat \<Rightarrow> callback option \<Rightarrow> rat \<Rightarrow> world
    \<Rightarrow> ((exn + json) \<times> world) option" where
  "wait_loop env base_url job_id poll_interval timeout progress_callback start w =
     (case time_time env w of
        (t, w1) \<Rightarrow>
          if t - start < timeout then
            (case get_job_status env base_url job_id w1 of
               (Inl e, w2) \<Rightarrow> Some (Inl e, w2)
             | (Inr status, w2) \<Rightarrow>
                (case run_callback progress_callback status w2 of
                   (Inl e, w3) \<Rightarrow> Some (Inl e, w3)
                 | (Inr status', w3) \<Rightarrow>
                    (case subscript status' ''status'' of
                       Inl e \<Rightarrow> Some (Inl e, w3)
                     | Inr v \<Rightarrow>
                        if v \<in> set terminal_states then Some (Inr status', w3)
                        else
                          (case time_sleep poll_interval w3 of
                             (Inl e, w4) \<Rightarrow> Some (Inl e, w4)
                           | (Inr _, w4) \<Rightarrow>
                              wait_loop env base_url job_id poll_interval timeout
                                progress_callback start w4))))
          else Some (Inl (TimeoutError (''Job '' @ job_id @ '' timeout'')), w1))"

definition wait_for_completion ::
  "env \<Rightarrow> string \<Rightarrow> string \<Rightarrow> rat \<Rightarrow> rat \<Rightarrow> callback option \<Rightarrow> world
    \<Rightarrow> ((exn + json) \<times> world) option" where
  "wait_for_completion env base_url job_id poll_interval timeout progress_callback w =
     (case time_time env w of
        (start, w0) \<Rightarrow>
          wait_loop env base_url job_id poll_interval timeout progress_callback start w0)"

section \<open>The single-job commands\<close>

text \<open>The marks of the messages, as the UTF-8 bytes of U+2713, U+2717, U+26A0 and U+2192.\<close>

definition check_mark :: string where
  "check_mark = [CHR 0xE2, CHR 0x9C, CHR 0x93]"

definition cross_mark :: string where
  "cross_mark = [CHR 0xE2, CHR 0x9C, CHR 0x97]"

definition warning_sign :: string where
  "warning_sign = [CHR 0xE2, CHR 0x9A, CHR 0xA0]"

definition arrow :: string where
  "arrow = [CHR 0xE2, CHR 0x86, CHR 0x92]"

text \<open>
  The callback of \<^verbatim>\<open>cmd_speak\<close>:
  \<^verbatim>\<open>progress = status.get("progress", 0)\<close>, and when it is truthy
  \<^verbatim>\<open>print(f"  Progress: {int(progress * 100)}%", end="\r")\<close>. These are statements
  of the program: the time they take is part of the drift of the clock.
\<close>

definition show_progress :: "env \<Rightarrow> callback" where
  "show_progress env seen status =
     (case dict_get status ''progress'' (JInt 0) of
        Inl e \<Rightarrow> (Inl e, [], 0)
      | Inr progress \<Rightarrow>
          if truthy progress then
            (case percent env progress of
               Inl e \<Rightarrow> (Inl e, [], 0)
             | Inr p \<Rightarrow> (Inr status, [''  Progress: '' @ p @ ''%'' @ [CHR 0x0D]], 0))
          else (Inr status, [], 0))"

text \<open>
  The condition every command puts on the awaited status:
  \<^verbatim>\<open>status["status"] == "completed" and status.get("audio_url")\<close>; the right
  operand is evaluated only when the left one holds.
\<close>

definition completed_with_audio :: "json \<Rightarrow> exn + bool" where
  "completed_with_audio status =
     (case subscript status ''status'' of
        Inl e \<Rightarrow> Inl e
      | Inr st \<Rightarrow>
          if st = JStr ''completed'' then
            (case dict_get status ''audio_url'' JNull of
               Inl e \<Rightarrow> Inl e
             | Inr a \<Rightarrow> Inr (truthy a))
          else Inr False)"

text \<open>
  The \<^verbatim>\<open>if\<close>/\<^verbatim>\<open>else\<close> that ends \<^verbatim>\<open>cmd_speak\<close>, \<^verbatim>\<open>cmd_design\<close> and
  \<^verbatim>\<open>cmd_clone\<close> (the same six lines in each): download and report, or report
  the failure on standard error and \<^verbatim>\<open>sys.exit(1)\<close>.
\<close>

definition save_or_exit :: "env \<Rightarrow> string \<Rightarrow> json \<Rightarrow> path \<Rightarrow> world \<Rightarrow> (failure + unit) \<times> world" where
  "save_or_exit env base_url status output w =
     (case completed_with_audio status of
        Inl e \<Rightarrow> (Inl (Uncaught e), w)
      | Inr ok \<Rightarrow>
          if ok then
            (case subscript status ''audio_url'' of
               Inl e \<Rightarrow> (Inl (Uncaught e), w)
             | Inr audio_url \<Rightarrow>
                (case download_audio env base_url audio_url output w of
                   (Inl e, w1) \<Rightarrow> (Inl (Uncaught e), w1)
                 | (Inr _, w1) \<Rightarrow> (Inr (), print (check_mark @ '' Saved: '' @ output) w1)))
          else
            (case dict_get status ''error'' (JStr ''Unknown'') of
               Inl e \<Rightarrow> (Inl (Uncaught e), w)
             | Inr err \<Rightarrow>
                (Inl (SystemExit 1), print_err (cross_mark @ '' Failed: '' @ fmt env err) w)))"

definition cmd_speak ::
  "env \<Rightarrow> string \<Rightarrow> string \<Rightarrow> path \<Rightarrow> string \<Rightarrow> string option \<Rightarrow> world
    \<Rightarrow> ((failure + unit) \<times> world) option" where
  "cmd_speak env text speaker output language instruct w =
     (let base_url = init_base_url API_BASE;
          w1 = print (''Generating speech with speaker: '' @ speaker) w;
          w2 = print (''Text: '' @ take_chars 60 text @ ''...'') w1
      in case custom_voice env base_url text speaker language instruct w2 of
           (Inl e, w3) \<Rightarrow> Some (Inl (Uncaught e), w3)
         | (Inr job_id, w3) \<Rightarrow>
            (case wait_for_completion env base_url job_id 1 300 (Some (show_progress env))
                    (print (''Job ID: '' @ job_id) w3) of
               None \<Rightarrow> None
             | Some (Inl e, w4) \<Rightarrow> Some (Inl (Uncaught e), w4)
             | Some (Inr status, w4) \<Rightarrow>
                 Some (save_or_exit env base_url status output (print [] w4))))"

definition cmd_design ::
  "env \<Rightarrow> string \<Rightarrow> string \<Rightarrow> path \<Rightarrow> string \<Rightarrow> world \<Rightarrow> ((failure + unit) \<times> world) option" where
  "cmd_design env text description output language w =
     (let base_url = init_base_url API_BASE;
          w1 = print (''Designing voice: '' @ description) w;
          w2 = print (''Text: '' @ take_chars 60 text @ ''...'') w1
      in case voice_design env base_url text description language w2 of
           (Inl e, w3) \<Rightarrow> Some (Inl (Uncaught e), w3)
         | (Inr job_id, w3) \<Rightarrow>
            (case wait_for_completion env base_url job_id 1 300 None
                    (print (''Job ID: '' @ job_id) w3) of
               None \<Rightarrow> None
             | Some (Inl e, w4) \<Rightarrow> Some (Inl (Uncaught e), w4)
             | Some (Inr status, w4) \<Rightarrow> Some (save_or_exit env base_url status output w4)))"

text \<open>
  \<^verbatim>\<open>cmd_clone\<close> submits by timbre when one is given, and otherwise from the
  reference audio, after checking that the file exists.
\<close>

definition clone_submit ::
  "env \<Rightarrow> string \<Rightarrow> path \<Rightarrow> string \<Rightarrow> string option \<Rightarrow> bool \<Rightarrow> string option \<Rightarrow> string option
    \<Rightarrow> string \<Rightarrow> world \<Rightarrow> (failure + string) \<times> world" where
  "clone_submit env base_url audio text ref_text x_vector_only instruct timbre language w =
     (if truthy_opt timbre then
        (let t = (case timbre of Some t \<Rightarrow> t | None \<Rightarrow> [])
         in case voice_clone_with_timbre env base_url text t language instruct
                   (print (''Using timbre: '' @ t) w) of
              (Inl e, w1) \<Rightarrow> (Inl (Uncaught e), w1)
            | (Inr job_id, w1) \<Rightarrow> (Inr job_id, w1))
      else
        (let w1 = print (''Cloning from: '' @ audio) w
         in if \<not> path_exists w1 audio then
              (Inl (SystemExit 1), print_err (cross_mark @ '' Audio file not found: '' @ audio) w1)
            else
              (case voice_clone env base_url text audio language ref_text x_vector_only
                      instruct w1 of
                 (Inl e, w2) \<Rightarrow> (Inl (Uncaught e), w2)
               | (Inr job_id, w2) \<Rightarrow> (Inr job_id, w2))))"

definition cmd_clone ::
  "env \<Rightarrow> path \<Rightarrow> string \<Rightarrow> path \<Rightarrow> string option \<Rightarrow> bool \<Rightarrow> string option \<Rightarrow> string option
    \<Rightarrow> string \<Rightarrow> world \<Rightarrow> ((failure + unit) \<times> world) option" where
  "cmd_clone env audio text output ref_text x_vector_only instruct timbre language w =
     (let base_url = init_base_url API_BASE
      in case clone_submit env base_url audio text ref_text x_vector_only instruct timbre
                language w of
           (Inl e, w1) \<Rightarrow> Some (Inl e, w1)
         | (Inr job_id, w1) \<Rightarrow>
            (case wait_for_completion env base_url job_id 1 300 None
                    (print (''Job ID: '' @ job_id) (print (''Text: '' @ take_chars 60 text @ ''...'') w1)) of
               None \<Rightarrow> None
             | Some (Inl e, w2) \<Rightarrow> Some (Inl (Uncaught e), w2)
             | Some (Inr status, w2) \<Rightarrow> Some (save_or_exit env base_url status output w2)))"

section \<open>The batch commands\<close>

text \<open>
  \<^verbatim>\<open>sorted(input_path.glob("*.txt"))\<close> is given to the commands as the list of its
  files: for each one its \<^verbatim>\<open>name\<close>, its \<^verbatim>\<open>stem\<close> and what
  \<^verbatim>\<open>read_text(encoding='utf-8')\<close> gives when the loop reaches it (the text, or the
  exception it raises). \<open>output_path\<close> is \<^verbatim>\<open>Path(output_dir)\<close>; creating the
  directory is not modelled.
\<close>

record txt_file =
  file_name :: string
  file_stem :: string
  read_text :: "exn + string"

definition results_entry :: "txt_file \<Rightarrow> string \<Rightarrow> (string \<times> json) list \<Rightarrow> json" where
  "results_entry txt_file outcome extra =
     JObj ([(''file'', JStr (file_name txt_file)), (''status'', JStr outcome)] @ extra)"

text \<open>
  The body of the \<^verbatim>\<open>try\<close> of \<^verbatim>\<open>cmd_batch_speak\<close>, in two parts: what follows
  the wait (\<open>batch_speak_record\<close>), and the whole (\<open>batch_speak_file\<close>). The
  source appends the entry to \<^verbatim>\<open>results\<close>; here the entry is returned and the
  loop appends it.
\<close>

definition batch_speak_record ::
  "env \<Rightarrow> string \<Rightarrow> path \<Rightarrow> txt_file \<Rightarrow> json \<Rightarrow> world \<Rightarrow> (exn + json) \<times> world" where
  "batch_speak_record env base_url output_path txt_file status w =
     (case completed_with_audio status of
        Inl e \<Rightarrow> (Inl e, w)
      | Inr ok \<Rightarrow>
          if ok then
            (let out_file = path_div output_path (file_stem txt_file @ ''.wav'')
             in case subscript status ''audio_url'' of
                  Inl e \<Rightarrow> (Inl e, w)
                | Inr audio_url \<Rightarrow>
                   (case download_audio env base_url audio_url out_file w of
                      (Inl e, w1) \<Rightarrow> (Inl e, w1)
                    | (Inr _, w1) \<Rightarrow>
                       (Inr (results_entry txt_file ''success'' [(''output'', JStr out_file)]),
                        print (''  '' @ check_mark @ '' '' @ path_name out_file) w1)))
          else
            (case dict_get status ''error'' (JStr ''Unknown'') of
               Inl e \<Rightarrow> (Inl e, w)
             | Inr err \<Rightarrow>
                (Inr (results_entry txt_file ''failed'' [(''error'', err)]),
                 print (''  '' @ cross_mark @ '' '' @ fmt env err) w)))"

definition batch_speak_file ::
  "env \<Rightarrow> string \<Rightarrow> path \<Rightarrow> string \<Rightarrow> string \<Rightarrow> string option \<Rightarrow> txt_file \<Rightarrow> string \<Rightarrow> world
    \<Rightarrow> ((exn + json) \<times> world) option" where
  "batch_speak_file env base_url output_path speaker language instruct txt_file text w =
     (case custom_voice env base_url text speaker language instruct w of
        (Inl e, w1) \<Rightarrow> Some (Inl e, w1)
      | (Inr job_id, w1) \<Rightarrow>
         (case wait_for_completion env base_url job_id 1 300 None
                 (print (''  '' @ arrow @ '' '' @ job_id) w1) of
            None \<Rightarrow> None
          | Some (Inl e, w2) \<Rightarrow> Some (Inl e, w2)
          | Some (Inr status, w2) \<Rightarrow>
              Some (batch_speak_record env base_url output_path txt_file status w2)))"

text \<open>
  The \<^verbatim>\<open>for\<close> loop of \<^verbatim>\<open>cmd_batch_speak\<close>: \<open>n_files\<close> is
  \<^verbatim>\<open>len(text_files)\<close>, \<open>i\<close> the index of \<^verbatim>\<open>enumerate(text_files, 1)\<close>. The
  file is read outside the \<^verbatim>\<open>try\<close>: an exception there leaves the loop. Inside
  it, \<^verbatim>\<open>except Exception as e\<close> records \<^verbatim>\<open>str(e)\<close>.
\<close>

fun batch_speak_loop ::
  "env \<Rightarrow> string \<Rightarrow> path \<Rightarrow> string \<Rightarrow> string \<Rightarrow> string option \<Rightarrow> nat \<Rightarrow> nat \<Rightarrow> txt_file list
    \<Rightarrow> json list \<Rightarrow> world \<Rightarrow> ((exn + json list) \<times> world) option" where
  "batch_speak_loop env base_url output_path speaker language instruct n_files i [] results w =
     Some (Inr results, w)"
| "batch_speak_loop env base_url output_path speaker language instruct n_files i
       (txt_file # text_files) results w =
     (let w1 = print (newline @ ''['' @ str_nat i @ ''/'' @ str_nat n_files @ ''] ''
                        @ file_name txt_file) w
      in case read_text txt_file of
           Inl e \<Rightarrow> Some (Inl e, w1)
         | Inr raw \<Rightarrow>
            (let text = strip raw
             in if text = [] then
                  batch_speak_loop env base_url output_path speaker language instruct n_files
                    (Suc i) text_files results (print (''  '' @ warning_sign @ '' Empty file'') w1)
                else
                  (case batch_speak_file env base_url output_path speaker language instruct
                          txt_file text w1 of
                     None \<Rightarrow> None
                   | Some (Inl e, w2) \<Rightarrow>
                       batch_speak_loop env base_url output_path speaker language instruct
                         n_files (Suc i) text_files
                         (results @ [results_entry txt_file ''error'' [(''error'', JStr (str_exn e))]])
                         (print (''  '' @ cross_mark @ '' '' @ str_exn e) w2)
                   | Some (Inr entry, w2) \<Rightarrow>
                       batch_speak_loop env base_url output_path speaker language instruct
                         n_files (Suc i) text_files (results @ [entry]) w2)))"

text \<open>\<^verbatim>\<open>sum(1 for r in results if r["status"] == "success")\<close>.\<close>

definition count_success :: "json list \<Rightarrow> nat" where
  "count_success results =
     length (filter (\<lambda>r. subscript r ''status'' = Inr (JStr ''success'')) results)"

definition cmd_batch_speak ::
  "env \<Rightarrow> txt_file list \<Rightarrow> path \<Rightarrow> string \<Rightarrow> string \<Rightarrow> string option \<Rightarrow> world
    \<Rightarrow> ((failure + unit) \<times> world) option" where
  "cmd_batch_speak env text_files output_dir speaker language instruct w =
     (let base_url = init_base_url API_BASE;
          w1 = print (''Found '' @ str_nat (length text_files) @ '' files to process'') w
      in case batch_speak_loop env base_url (Path output_dir) speaker language instruct
                (length text_files) 1 text_files [] w1 of
           None \<Rightarrow> None
         | Some (Inl e, w2) \<Rightarrow> Some (Inl (Uncaught e), w2)
         | Some (Inr results, w2) \<Rightarrow>
            (let report_file = path_div (Path output_dir) ''batch_report.json'';
                 w3 = write_file report_file (dumps env (JArr results)) w2;
                 w4 = print (newline @ ''Complete: '' @ str_nat (count_success results) @ ''/''
                               @ str_nat (length results) @ '' successful'') w3
             in Some (Inr (), print (''Report: '' @ report_file) w4)))"

text \<open>The same three parts for \<^verbatim>\<open>cmd_batch_clone\<close>.\<close>

definition batch_clone_record ::
  "env \<Rightarrow> string \<Rightarrow> path \<Rightarrow> txt_file \<Rightarrow> json \<Rightarrow> world \<Rightarrow> (exn + json) \<times> world" where
  "batch_clone_record env base_url output_path txt_file status w =
     (case completed_with_audio status of
        Inl e \<Rightarrow> (Inl e, w)
      | Inr ok \<Rightarrow>
          if ok then
            (let out_file = path_div output_path (file_stem txt_file @ ''.wav'')
             in case subscript status ''audio_url'' of
                  Inl e \<Rightarrow> (Inl e, w)
                | Inr audio_url \<Rightarrow>
                   (case download_audio env base_url audio_url out_file w of
                      (Inl e, w1) \<Rightarrow> (Inl e, w1)
                    | (Inr _, w1) \<Rightarrow>
                       (Inr (results_entry txt_file ''success'' []),
                        print (''  '' @ check_mark @ '' '' @ path_name out_file) w1)))
          else
            (case dict_get status ''error'' (JStr ''Unknown'') of
               Inl e \<Rightarrow> (Inl e, w)
             | Inr err \<Rightarrow>
                (Inr (results_entry txt_file ''failed'' [(''error'', err)]),
                 print (''  '' @ cross_mark @ '' '' @ fmt env err) w)))"

definition batch_clone_file ::
  "env \<Rightarrow> string \<Rightarrow> path \<Rightarrow> path \<Rightarrow> string option \<Rightarrow> string \<Rightarrow> txt_file \<Rightarrow> string \<Rightarrow> world
    \<Rightarrow> ((exn + json) \<times> world) option" where
  "batch_clone_file env base_url output_path reference_audio ref_text language txt_file text w =
     (case voice_clone env base_url text reference_audio language ref_text False None w of
        (Inl e, w1) \<Rightarrow> Some (Inl e, w1)
      | (Inr job_id, w1) \<Rightarrow>
         (case wait_for_completion env base_url job_id 1 300 None
                 (print (''  '' @ arrow @ '' '' @ job_id) w1) of
            None \<Rightarrow> None
          | Some (Inl e, w2) \<Rightarrow> Some (Inl e, w2)
          | Some (Inr status, w2) \<Rightarrow>
              Some (batch_clone_record env base_url output_path txt_file status w2)))"

fun batch_clone_loop ::
  "env \<Rightarrow> string \<Rightarrow> path \<Rightarrow> path \<Rightarrow> string option \<Rightarrow> string \<Rightarrow> nat \<Rightarrow> nat \<Rightarrow> txt_file list
    \<Rightarrow> json list \<Rightarrow> world \<Rightarrow> ((exn + json list) \<times> world) option" where
  "batch_clone_loop env base_url output_path reference_audio ref_text language n_files i [] results w =
     Some (Inr results, w)"
| "batch_clone_loop env base_url output_path reference_audio ref_text language n_files i
       (txt_file # text_files) results w =
     (let w1 = print (newline @ ''['' @ str_nat i @ ''/'' @ str_nat n_files @ ''] ''
                        @ file_name txt_file) w
      in case read_text txt_file of
           Inl e \<Rightarrow> Some (Inl e, w1)
         | Inr raw \<Rightarrow>
            (let text = strip raw
             in if text = [] then
                  batch_clone_loop env base_url output_path reference_audio ref_text language
                    n_files (Suc i) text_files results
                    (print (''  '' @ warning_sign @ '' Empty file'') w1)
                else
                  (case batch_clone_file env base_url output_path reference_audio ref_text
                          language txt_file text w1 of
                     None \<Rightarrow> None
                   | Some (Inl e, w2) \<Rightarrow>
                       batch_clone_loop env base_url output_path reference_audio ref_text
                         language n_files (Suc i) text_files
                         (results @ [results_entry txt_file ''error'' [(''error'', JStr (str_exn e))]])
                         (print (''  '' @ cross_mark @ '' '' @ str_exn e) w2)
                   | Some (Inr entry, w2) \<Rightarrow>
                       batch_clone_loop env base_url output_path reference_audio ref_text
                         language n_files (Suc i) text_files (results @ [entry]) w2)))"

definition cmd_batch_clone ::
  "env \<Rightarrow> txt_file list \<Rightarrow> path \<Rightarrow> path \<Rightarrow> string option \<Rightarrow> string \<Rightarrow> world
    \<Rightarrow> ((failure + unit) \<times> world) option" where
  "cmd_batch_clone env text_files output_dir reference_audio ref_text language w =
     (let base_url = init_base_url API_BASE
      in if \<not> path_exists w reference_audio then
           Some (Inl (SystemExit 1),
                 print_err (cross_mark @ '' Reference audio not found: '' @ reference_audio) w)
         else
           (let w1 = print (''Cloning voice from: '' @ reference_audio) w;
                w2 = print (''Processing '' @ str_nat (length text_files) @ '' files'') w1
            in case batch_clone_loop env base_url (Path output_dir) reference_audio ref_text
                      language (length text_files) 1 text_files [] w2 of
                 None \<Rightarrow> None
               | Some (Inl e, w3) \<Rightarrow> Some (Inl (Uncaught e), w3)
               | Some (Inr results, w3) \<Rightarrow>
                   Some (Inr (), print (newline @ ''Complete: '' @ str_nat (count_success results)
                                          @ ''/'' @ str_nat (length results) @ '' successful'') w3)))"

section \<open>Notions used to state the properties\<close>

text \<open>
  What a method makes of an answer: \<^verbatim>\<open>raise_for_status()\<close>, then \<^verbatim>\<open>json()\<close>.
  \<open>poll env base_url job_id n\<close> is then the outcome of \<^verbatim>\<open>get_job_status\<close> when
  \<open>n\<close> requests have been issued before it.
\<close>

definition decoded :: "string \<Rightarrow> response \<Rightarrow> exn + json" where
  "decoded url r = (case raise_for_status url r of Inl e \<Rightarrow> Inl e | Inr _ \<Rightarrow> resp_json r)"

definition poll :: "env \<Rightarrow> string \<Rightarrow> string \<Rightarrow> nat \<Rightarrow> exn + json" where
  "poll env base_url job_id n =
     decoded (status_url base_url job_id) (respond env n (GET (status_url base_url job_id)))"

text \<open>
  A status is terminal when its \<^verbatim>\<open>status\<close> field is one of the three values, and
  pending when it has the field with another value.
\<close>

definition is_terminal :: "json \<Rightarrow> bool" where
  "is_terminal s =
     (case subscript s ''status'' of Inl e \<Rightarrow> False | Inr v \<Rightarrow> v \<in> set terminal_states)"

definition pending :: "json \<Rightarrow> bool" where
  "pending s =
     (case subscript s ''status'' of Inl e \<Rightarrow> False | Inr v \<Rightarrow> v \<notin> set terminal_states)"

text \<open>
  A callback is an observer of \<open>s\<close> when, whatever it has seen before, it returns
  on \<open>s\<close>, leaves it as it is and takes no time of its own. No callback at all is one.
\<close>

definition cb_ok :: "callback option \<Rightarrow> json \<Rightarrow> bool" where
  "cb_ok cb s =
     (case cb of
        None \<Rightarrow> True
      | Some f \<Rightarrow> \<forall>seen. fst (f seen s) = Inr s \<and> snd (snd (f seen s)) = 0)"

text \<open>The time that a call of the callback takes; none without a callback.\<close>

definition cb_time :: "callback option \<Rightarrow> json list \<Rightarrow> json \<Rightarrow> rat" where
  "cb_time cb seen s = (case cb of None \<Rightarrow> 0 | Some f \<Rightarrow> snd (snd (f seen s)))"

text \<open>
  The time that \<^verbatim>\<open>wait_for_completion\<close>, called in the world \<open>w\<close>, finds elapsed
  since its start when it tests the deadline for the \<open>(i+1)\<close>-th time, the \<open>i\<close>
  polls before having been pending: the drift of each reading and \<open>i\<close> sleeps.
\<close>

definition elapsed :: "env \<Rightarrow> world \<Rightarrow> rat \<Rightarrow> nat \<Rightarrow> rat" where
  "elapsed env w poll_interval i =
     (\<Sum>j\<le>i. drift env (Suc (time_calls w) + j)) + of_nat i * poll_interval"

text \<open>The log of \<open>k\<close> requests for one address, the first one being request number \<open>n\<close>.\<close>

definition polls_log :: "env \<Rightarrow> string \<Rightarrow> nat \<Rightarrow> nat \<Rightarrow> (request \<times> response) list" where
  "polls_log env url n k = map (\<lambda>i. (GET url, respond env (n + i) (GET url))) [0..<k]"

text \<open>The world after the reading of the clock and the request of one iteration.\<close>

definition polled :: "env \<Rightarrow> string \<Rightarrow> world \<Rightarrow> world" where
  "polled env url w =
     w\<lparr>now := now w + drift env (time_calls w), time_calls := Suc (time_calls w),
       http_log := http_log w @ [(GET url, respond env (length (http_log w)) (GET url))]\<rparr>"




text \<open>
  A command started in the world \<open>w\<close> issues its submission as request number
  \<open>length (http_log w)\<close> and then waits with a poll interval of 1 and a timeout of
  300. \<open>awaits\<close> says that this wait fetches \<open>k\<close> pending statuses and then the
  terminal status \<open>s\<close>, all within the deadline; \<open>never_done\<close>, that it fetches \<open>k\<close>
  pending statuses and then finds the deadline passed.
\<close>

definition awaits :: "env \<Rightarrow> callback option \<Rightarrow> string \<Rightarrow> world \<Rightarrow> nat \<Rightarrow> json \<Rightarrow> bool" where
  "awaits env cb job_id w k s =
     ((\<forall>i<k. \<exists>s'. poll env API_BASE job_id (Suc (length (http_log w)) + i) = Inr s' \<and> pending s'
                  \<and> cb_ok cb s')
      \<and> poll env API_BASE job_id (Suc (length (http_log w)) + k) = Inr s
      \<and> is_terminal s \<and> cb_ok cb s
      \<and> (\<forall>i\<le>k. elapsed env w 1 i < 300))"



text \<open>The text of \<^verbatim>\<open>status.get('error', 'Unknown')\<close> in a message.\<close>

definition error_text :: "env \<Rightarrow> json \<Rightarrow> string" where
  "error_text env status =
     (case dict_get status ''error'' (JStr ''Unknown'') of Inl e \<Rightarrow> [] | Inr err \<Rightarrow> fmt env err)"

text \<open>
  For the batch commands: a file is readable when reading it raises nothing, and blank
  when it is what the loop calls an empty file, its text being empty once stripped.
  \<open>submissions\<close> counts the \<^verbatim>\<open>POST\<close> requests of a log, and \<open>entry_file\<close> is the
  \<^verbatim>\<open>file\<close> field of an entry of the results.
\<close>

definition readable :: "txt_file \<Rightarrow> bool" where
  "readable f = (case read_text f of Inl e \<Rightarrow> False | Inr raw \<Rightarrow> True)"

definition blank :: "txt_file \<Rightarrow> bool" where
  "blank f = (case read_text f of Inl e \<Rightarrow> False | Inr raw \<Rightarrow> strip raw = [])"

fun is_post :: "request \<Rightarrow> bool" where
  "is_post (POST url b) = True"
| "is_post (GET url) = False"

definition submissions :: "(request \<times> response) list \<Rightarrow> nat" where
  "submissions exchanges = length (filter (\<lambda>x. is_post (fst x)) exchanges)"

definition entry_file :: "json \<Rightarrow> exn + json" where
  "entry_file entry = subscript entry ''file''"

text \<open>The header that the loop prints for file number \<open>i\<close> of \<open>n_files\<close>.\<close>

definition header :: "nat \<Rightarrow> nat \<Rightarrow> txt_file \<Rightarrow> string" where
  "header i n_files f = newline @ ''['' @ str_nat i @ ''/'' @ str_nat n_files @ ''] '' @ file_name f"

section \<open>A mock service, for concrete runs\<close>

text \<open>
  The service of the scenario of the specification: every submission answers with the
  job id \<open>j1\<close>; a status request answers \<open>processing\<close> (with a progress of one half)
  when fewer than \<open>k\<close> requests have been issued before it, and \<open>final\<close> from
  then on; any other \<^verbatim>\<open>GET\<close> answers with the bytes of an audio file. The clock of
  \<open>mock_env\<close> stands still but for the sleeps.
\<close>

definition processing_status :: json where
  "processing_status = JObj [(''status'', JStr ''processing''), (''progress'', JNum (1 / 2))]"

definition completed_status :: json where
  "completed_status = JObj [(''status'', JStr ''completed''), (''audio_url'', JStr ''/files/j1.wav'')]"

definition mock_respond :: "nat \<Rightarrow> json \<Rightarrow> nat \<Rightarrow> request \<Rightarrow> response" where
  "mock_respond k final n q =
     (case q of
        POST url b \<Rightarrow> Reply 200 ''OK'' (Inr (JObj [(''job_id'', JStr ''j1'')])) []
      | GET url \<Rightarrow>
          if url = status_url API_BASE ''j1'' then
            Reply 200 ''OK'' (Inr (if n < k then processing_status else final)) []
          else Reply 200 ''OK'' (Inl ''Expecting value'') ''RIFF'')"

definition mock_env :: "nat \<Rightarrow> json \<Rightarrow> env" where
  "mock_env k final =
     \<lparr>drift = (\<lambda>n. 0), respond = mock_respond k final, py_str = (\<lambda>v. ''None''),
      py_repr = quote, dumps = (\<lambda>v. ''[]''), percent = (\<lambda>v. Inr ''50'')\<rparr>"

definition world0 :: world where
  "world0 = \<lparr>now = 0, time_calls = 0, http_log = [], cb_calls = [], fs = Map.empty,
             stdout = [], stderr = []\<rparr>"

text \<open>
  Two callbacks: one that looks at the status and returns, one that raises. And a
  service like the mock one whose clock jumps by 299 seconds before its third
  reading.
\<close>

definition silent_callback :: callback where
  "silent_callback seen status = (Inr status, [], 0)"




text \<open>A completed status without an \<^verbatim>\<open>audio_url\<close>, for the mock service to answer.\<close>

definition no_audio_status :: json where
  "no_audio_status = JObj [(''status'', JStr ''completed'')]"

text \<open>
  The origin of an address in the words of the specification: its scheme and host
  only, that is what stands before the first slash after \<^verbatim>\<open>://\<close>.
\<close>

definition spec_origin :: "string \<Rightarrow> string" where
  "spec_origin url =
     (let scheme = takeWhile (\<lambda>c. c \<noteq> CHR '':'') url;
          host = takeWhile (\<lambda>c. c \<noteq> CHR ''/'') (drop (length scheme + 3) url)
      in scheme @ ''://'' @ host)"

text \<open>
  For the batch commands: a file with a text, a file with white space only (a space,
  U+00A0, a line feed and U+3000), and a world in which the reference audio exists.
\<close>

definition file_a :: txt_file where
  "file_a = \<lparr>file_name = ''a.txt'', file_stem = ''a'', read_text = Inr ''hello''\<rparr>"

definition file_b :: txt_file where
  "file_b = \<lparr>file_name = ''b.txt'', file_stem = ''b'',
              read_text = Inr [CHR 0x20, CHR 0xC2, CHR 0xA0, CHR 0x0A, CHR 0xE3, CHR 0x80, CHR 0x80]\<rparr>"

definition world_ref :: world where
  "world_ref = world0\<lparr>fs := [''ref.wav'' \<mapsto> ''RIFF'']\<rparr>"





section \<open>Lemmas: the primitives and one iteration of the loop\<close>

lemma send_eq:
  "send env q w =
     ((case respond env (length (http_log w)) q of
         Unreachable m \<Rightarrow> Inl (ConnectionError m)
       | Reply code reason doc content \<Rightarrow> Inr (respond env (length (http_log w)) q)),
      w\<lparr>http_log := http_log w @ [(q, respond env (length (http_log w)) q)]\<rparr>)"
  by (simp add: send_def Let_def split: response.splits)

lemma get_job_status_eq:
  "get_job_status env base_url job_id w =
     (poll env base_url job_id (length (http_log w)),
      w\<lparr>http_log := http_log w @
          [(GET (status_url base_url job_id),
            respond env (length (http_log w)) (GET (status_url base_url job_id)))]\<rparr>)"
  by (simp add: get_job_status_def session_get_def send_eq poll_def decoded_def
           split: response.splits sum.splits)

lemma time_time_eq:
  "time_time env w =
     (now w + drift env (time_calls w),
      w\<lparr>now := now w + drift env (time_calls w), time_calls := Suc (time_calls w)\<rparr>)"
  by (simp add: time_time_def Let_def)

lemma poll_step:
  "get_job_status env base_url job_id
       (w\<lparr>now := now w + drift env (time_calls w), time_calls := Suc (time_calls w)\<rparr>) =
     (poll env base_url job_id (length (http_log w)), polled env (status_url base_url job_id) w)"
  by (simp add: get_job_status_eq polled_def)

lemma polled_simps [simp]:
  "now (polled env url w) = now w + drift env (time_calls w)"
  "time_calls (polled env url w) = Suc (time_calls w)"
  "http_log (polled env url w) = http_log w @ [(GET url, respond env (length (http_log w)) (GET url))]"
  "cb_calls (polled env url w) = cb_calls w"
  "fs (polled env url w) = fs w"
  "stdout (polled env url w) = stdout w"
  "stderr (polled env url w) = stderr w"
  by (simp_all add: polled_def)

lemma cb_time_simps [simp]:
  "cb_time None seen s = 0" "cb_ok cb s \<Longrightarrow> cb_time cb seen s = 0"
  by (auto simp: cb_time_def cb_ok_def split: option.splits)

lemma run_callback_frame:
  assumes "run_callback cb s v = (r, v')"
  shows "now v' = now v + cb_time cb (cb_calls v) s"
    and "time_calls v' = time_calls v" and "http_log v' = http_log v"
    and "fs v' = fs v" and "stderr v' = stderr v"
    and "cb_calls v' = cb_calls v @ (case cb of None \<Rightarrow> [] | Some f \<Rightarrow> [s])"
    and "cb = None \<Longrightarrow> v' = v"
  using assms by (auto simp: run_callback_def cb_time_def split: option.splits prod.splits)

lemma run_callback_None: "run_callback None s v = (Inr s, v)"
  by (simp add: run_callback_def)

lemma run_callback_ok:
  assumes "cb_ok cb s"
  shows "fst (run_callback cb s v) = Inr s"
  using assms
  by (auto simp: cb_ok_def run_callback_def split: option.splits prod.splits) (metis fst_conv)

lemma run_callback_ok_eq:
  assumes "cb_ok cb s"
  shows "run_callback cb s v = (Inr s, snd (run_callback cb s v))"
  using run_callback_ok [OF assms, of v] by (cases "run_callback cb s v") simp

text \<open>The ways through one iteration of the loop, each as an equation.\<close>

lemma wait_loop_late:
  assumes "timeout \<le> now w + drift env (time_calls w) - start"
  shows "wait_loop env base_url job_id poll_interval timeout cb start w =
     Some (Inl (TimeoutError (''Job '' @ job_id @ '' timeout'')),
           w\<lparr>now := now w + drift env (time_calls w), time_calls := Suc (time_calls w)\<rparr>)"
  using assms by (subst wait_loop.simps) (simp add: time_time_eq)


lemma wait_loop_polled:
  assumes "now w + drift env (time_calls w) - start < timeout"
    and "poll env base_url job_id (length (http_log w)) = Inr s"
    and "run_callback cb s (polled env (status_url base_url job_id) w) = (r, v)"
  shows "wait_loop env base_url job_id poll_interval timeout cb start w =
     (case r of
        Inl e \<Rightarrow> Some (Inl e, v)
      | Inr s' \<Rightarrow>
         (case subscript s' ''status'' of
            Inl e \<Rightarrow> Some (Inl e, v)
          | Inr x \<Rightarrow>
             if x \<in> set terminal_states then Some (Inr s', v)
             else if poll_interval < 0
               then Some (Inl (ValueError ''sleep length must be non-negative''), v)
             else wait_loop env base_url job_id poll_interval timeout cb start
                    (v\<lparr>now := now v + poll_interval\<rparr>)))"
  by (subst wait_loop.simps)
     (simp add: time_time_eq poll_step assms time_sleep_def split: sum.splits)

lemma wait_loop_terminal:
  assumes "now w + drift env (time_calls w) - start < timeout"
    and "poll env base_url job_id (length (http_log w)) = Inr s"
    and "cb_ok cb s" and "is_terminal s"
  shows "wait_loop env base_url job_id poll_interval timeout cb start w =
     Some (Inr s, snd (run_callback cb s (polled env (status_url base_url job_id) w)))"
  using assms(4)
  by (simp add: wait_loop_polled [OF assms(1,2) run_callback_ok_eq [OF assms(3)]] is_terminal_def
           split: sum.splits)

lemma wait_loop_pending:
  assumes "now w + drift env (time_calls w) - start < timeout"
    and "poll env base_url job_id (length (http_log w)) = Inr s"
    and "cb_ok cb s" and "pending s" and "0 \<le> poll_interval"
  shows "wait_loop env base_url job_id poll_interval timeout cb start w =
     wait_loop env base_url job_id poll_interval timeout cb start
       ((snd (run_callback cb s (polled env (status_url base_url job_id) w)))
          \<lparr>now := now w + drift env (time_calls w) + poll_interval\<rparr>)"
proof -
  have "now (snd (run_callback cb s (polled env (status_url base_url job_id) w)))
          = now w + drift env (time_calls w)"
    using run_callback_frame(1) [OF run_callback_ok_eq [OF assms(3)]] assms(3) by simp
  then show ?thesis
    using assms(4,5)
    by (simp add: wait_loop_polled [OF assms(1,2) run_callback_ok_eq [OF assms(3)]] pending_def
             split: sum.splits)
qed

section \<open>Lemmas: runs of the loop\<close>


lemma polls_log_Suc:
  "polls_log env url n (Suc k) = polls_log env url n k @ [(GET url, respond env (n + k) (GET url))]"
  by (simp add: polls_log_def)

lemma length_polls_log: "length (polls_log env url n k) = k"
  by (simp add: polls_log_def)

lemma map_fst_polls_log: "map fst (polls_log env url n k) = replicate k (GET url)"
  by (induction k) (simp_all add: polls_log_def replicate_append_same)

text \<open>
  \<open>k\<close> pending polls, each within the deadline, bring the loop back to its condition
  \<open>k\<close> sleeps and \<open>k\<close> requests later.
\<close>

lemma wait_loop_pending_steps:
  assumes "0 \<le> poll_interval"
    and "\<forall>i<k. now w + (\<Sum>j\<le>i. drift env (time_calls w + j)) + of_nat i * poll_interval - start
                  < timeout
           \<and> (\<exists>s. poll env base_url job_id (length (http_log w) + i) = Inr s \<and> pending s
                    \<and> cb_ok cb s)"
  shows "\<exists>w'. wait_loop env base_url job_id poll_interval timeout cb start w
               = wait_loop env base_url job_id poll_interval timeout cb start w'
           \<and> time_calls w' = time_calls w + k
           \<and> now w' = now w + (\<Sum>j<k. drift env (time_calls w + j)) + of_nat k * poll_interval
           \<and> http_log w' = http_log w @ polls_log env (status_url base_url job_id) (length (http_log w)) k
           \<and> fs w' = fs w \<and> stderr w' = stderr w
           \<and> (cb = None \<longrightarrow> cb_calls w' = cb_calls w \<and> stdout w' = stdout w)"
  using assms(2)
proof (induction k)
  case 0
  show ?case by (rule exI [of _ w]) (simp add: polls_log_def)
next
  case (Suc k)
  from Suc.prems
  have "\<forall>i<k. now w + (\<Sum>j\<le>i. drift env (time_calls w + j)) + of_nat i * poll_interval - start
                  < timeout
           \<and> (\<exists>s. poll env base_url job_id (length (http_log w) + i) = Inr s \<and> pending s
                    \<and> cb_ok cb s)"
    by simp
  from Suc.IH [OF this] obtain v where
    v: "wait_loop env base_url job_id poll_interval timeout cb start w
               = wait_loop env base_url job_id poll_interval timeout cb start v"
       "time_calls v = time_calls w + k"
       "now v = now w + (\<Sum>j<k. drift env (time_calls w + j)) + of_nat k * poll_interval"
       "http_log v = http_log w @ polls_log env (status_url base_url job_id) (length (http_log w)) k"
       "fs v = fs w" "stderr v = stderr w"
       "cb = None \<longrightarrow> cb_calls v = cb_calls w \<and> stdout v = stdout w"
    by blast
  from Suc.prems obtain s where
    t: "now w + (\<Sum>j\<le>k. drift env (time_calls w + j)) + of_nat k * poll_interval - start < timeout"
    and s: "poll env base_url job_id (length (http_log w) + k) = Inr s" "pending s" "cb_ok cb s"
    by blast
  have t': "now v + drift env (time_calls v) - start < timeout"
    using t v(2,3) by (simp add: lessThan_Suc_atMost [symmetric] algebra_simps)
  have s': "poll env base_url job_id (length (http_log v)) = Inr s"
    using s(1) v(4) by (simp add: length_polls_log)
  define u where "u = snd (run_callback cb s (polled env (status_url base_url job_id) v))"
  have rc: "run_callback cb s (polled env (status_url base_url job_id) v) = (Inr s, u)"
    unfolding u_def by (rule run_callback_ok_eq [OF s(3)])
  note fr = run_callback_frame [OF rc]
  let ?v' = "u\<lparr>now := now v + drift env (time_calls v) + poll_interval\<rparr>"
  have step: "wait_loop env base_url job_id poll_interval timeout cb start v
               = wait_loop env base_url job_id poll_interval timeout cb start ?v'"
    unfolding u_def by (rule wait_loop_pending [OF t' s' s(3) s(2) assms(1)])
  show ?case
  proof (rule exI [of _ ?v'], intro conjI)
    show "wait_loop env base_url job_id poll_interval timeout cb start w
               = wait_loop env base_url job_id poll_interval timeout cb start ?v'"
      using v(1) step by simp
    show "time_calls ?v' = time_calls w + Suc k"
      using v(2) fr(2) by simp
    show "now ?v' = now w + (\<Sum>j<Suc k. drift env (time_calls w + j)) + of_nat (Suc k) * poll_interval"
      using v(2,3) by (simp add: algebra_simps)
    show "http_log ?v' = http_log w @ polls_log env (status_url base_url job_id) (length (http_log w)) (Suc k)"
      using v(4) fr(3) by (simp add: polls_log_Suc length_polls_log)
    show "fs ?v' = fs w" using v(5) fr(4) by simp
    show "stderr ?v' = stderr w" using v(6) fr(5) by simp
    show "cb = None \<longrightarrow> cb_calls ?v' = cb_calls w \<and> stdout ?v' = stdout w"
      using v(7) fr(7) by auto
  qed
qed

lemma wait_for_completion_unfold:
  "wait_for_completion env base_url job_id poll_interval timeout cb w =
     wait_loop env base_url job_id poll_interval timeout cb (now w + drift env (time_calls w))
       (w\<lparr>now := now w + drift env (time_calls w), time_calls := Suc (time_calls w)\<rparr>)"
  by (simp add: wait_for_completion_def time_time_eq)

lemma wait_for_completion_pending_steps:
  assumes "0 < k \<longrightarrow> 0 \<le> poll_interval"
    and "\<forall>i<k. \<exists>s. poll env base_url job_id (length (http_log w) + i) = Inr s \<and> pending s
                   \<and> cb_ok cb s"
    and "\<forall>i<k. elapsed env w poll_interval i < timeout"
  shows "\<exists>w'. wait_for_completion env base_url job_id poll_interval timeout cb w
               = wait_loop env base_url job_id poll_interval timeout cb
                   (now w + drift env (time_calls w)) w'
           \<and> now w' + drift env (time_calls w') - (now w + drift env (time_calls w))
               = elapsed env w poll_interval k
           \<and> http_log w' = http_log w @ polls_log env (status_url base_url job_id) (length (http_log w)) k
           \<and> fs w' = fs w \<and> stderr w' = stderr w
           \<and> (cb = None \<longrightarrow> cb_calls w' = cb_calls w \<and> stdout w' = stdout w)"
proof (cases k)
  case 0
  show ?thesis
    unfolding wait_for_completion_unfold 0
    by (rule exI [of _ "w\<lparr>now := now w + drift env (time_calls w),
                          time_calls := Suc (time_calls w)\<rparr>"])
       (simp add: elapsed_def polls_log_def)
next
  case (Suc m)
  let ?w0 = "w\<lparr>now := now w + drift env (time_calls w), time_calls := Suc (time_calls w)\<rparr>"
  let ?start = "now w + drift env (time_calls w)"
  have pi: "0 \<le> poll_interval" using assms(1) Suc by simp
  have "\<forall>i<k. now ?w0 + (\<Sum>j\<le>i. drift env (time_calls ?w0 + j)) + of_nat i * poll_interval - ?start
                  < timeout
           \<and> (\<exists>s. poll env base_url job_id (length (http_log ?w0) + i) = Inr s \<and> pending s
                    \<and> cb_ok cb s)"
    using assms(2,3) by (simp add: elapsed_def)
  from wait_loop_pending_steps [OF pi this] obtain w' where
    w': "wait_loop env base_url job_id poll_interval timeout cb ?start ?w0
               = wait_loop env base_url job_id poll_interval timeout cb ?start w'"
       "time_calls w' = time_calls ?w0 + k"
       "now w' = now ?w0 + (\<Sum>j<k. drift env (time_calls ?w0 + j)) + of_nat k * poll_interval"
       "http_log w' = http_log ?w0 @ polls_log env (status_url base_url job_id) (length (http_log ?w0)) k"
       "fs w' = fs ?w0" "stderr w' = stderr ?w0"
       "cb = None \<longrightarrow> cb_calls w' = cb_calls ?w0 \<and> stdout w' = stdout ?w0"
    by blast
  show ?thesis
  proof (rule exI [of _ w'], intro conjI)
    show "wait_for_completion env base_url job_id poll_interval timeout cb w
               = wait_loop env base_url job_id poll_interval timeout cb ?start w'"
      using w'(1) by (simp add: wait_for_completion_unfold)
    show "now w' + drift env (time_calls w') - ?start = elapsed env w poll_interval k"
      using w'(2,3) by (simp add: elapsed_def lessThan_Suc_atMost [symmetric])
  qed (use w' in simp_all)
qed




section \<open>Lemmas: the callback\<close>










text \<open>The run of \<open>k\<close> pending polls followed by a terminal one, and the world it ends in.\<close>

lemma wait_for_completion_run:
  assumes "0 < k \<longrightarrow> 0 \<le> poll_interval"
    and "\<forall>i<k. \<exists>s. poll env base_url job_id (length (http_log w) + i) = Inr s \<and> pending s
                   \<and> cb_ok cb s"
    and "poll env base_url job_id (length (http_log w) + k) = Inr s"
    and "is_terminal s" and "cb_ok cb s"
    and "\<forall>i\<le>k. elapsed env w poll_interval i < timeout"
  shows "\<exists>w'. wait_for_completion env base_url job_id poll_interval timeout cb w = Some (Inr s, w')
           \<and> http_log w'
               = http_log w @ polls_log env (status_url base_url job_id) (length (http_log w)) (Suc k)
           \<and> fs w' = fs w \<and> stderr w' = stderr w
           \<and> (cb = None \<longrightarrow> cb_calls w' = cb_calls w \<and> stdout w' = stdout w)"
proof -
  have "\<forall>i<k. elapsed env w poll_interval i < timeout" using assms(6) by simp
  from wait_for_completion_pending_steps [OF assms(1,2) this] obtain v where
    v: "wait_for_completion env base_url job_id poll_interval timeout cb w
               = wait_loop env base_url job_id poll_interval timeout cb
                   (now w + drift env (time_calls w)) v"
       "now v + drift env (time_calls v) - (now w + drift env (time_calls w))
          = elapsed env w poll_interval k"
       "http_log v = http_log w @ polls_log env (status_url base_url job_id) (length (http_log w)) k"
       "fs v = fs w" "stderr v = stderr w"
       "cb = None \<longrightarrow> cb_calls v = cb_calls w \<and> stdout v = stdout w"
    by blast
  have t: "now v + drift env (time_calls v) - (now w + drift env (time_calls w)) < timeout"
    using v(2) assms(6) by simp
  have p: "poll env base_url job_id (length (http_log v)) = Inr s"
    using assms(3) v(3) by (simp add: length_polls_log)
  note fr = run_callback_frame [OF run_callback_ok_eq [OF assms(5),
        of "polled env (status_url base_url job_id) v"]]
  show ?thesis
    unfolding v(1) wait_loop_terminal [OF t p assms(5,4)]
    using v(3,4,5,6) by (auto simp: fr polls_log_Suc length_polls_log run_callback_None)
qed


text \<open>Evaluating the mock service.\<close>

lemma poll_mock:
  "poll (mock_env k final) API_BASE ''j1'' n = Inr (if n < k then processing_status else final)"
  by (simp add: poll_def decoded_def mock_env_def mock_respond_def)

lemma pending_processing: "pending processing_status"
  by (simp add: pending_def processing_status_def terminal_states_def)

lemma terminal_completed: "is_terminal completed_status"
  by (simp add: is_terminal_def completed_status_def terminal_states_def)

lemma show_progress_processing:
  "show_progress (mock_env k final) seen processing_status
     = (Inr processing_status, [''  Progress: 50%'' @ [CHR 0x0D]], 0)"
  by (simp add: show_progress_def processing_status_def mock_env_def)

lemma show_progress_completed:
  "show_progress env seen completed_status = (Inr completed_status, [], 0)"
  by (simp add: show_progress_def completed_status_def)

lemma elapsed_mock: "elapsed (mock_env k final) w poll_interval i = of_nat i * poll_interval"
  by (simp add: elapsed_def mock_env_def)

section \<open>The claims about \<^verbatim>\<open>wait_for_completion\<close>\<close>

text \<open>
  C1. Called in any world \<open>w\<close>, for any job id: when the first \<open>k\<close> polls fetch a
  pending status and poll \<open>k + 1\<close> fetches a status \<open>s\<close> whose \<^verbatim>\<open>status\<close>
  field is \<^verbatim>\<open>completed\<close>, \<^verbatim>\<open>failed\<close> or \<^verbatim>\<open>cancelled\<close>, each of these polls
  starting before the deadline, \<^verbatim>\<open>wait_for_completion\<close> returns \<open>s\<close>, and the
  requests it has issued are exactly these \<open>k + 1\<close> status requests: none follows
  the terminal poll. The callback, if there is one, is an observer of the statuses
  polled that takes no time of its own; a poll interval that \<^verbatim>\<open>time.sleep\<close> accepts is needed only if the loop
  sleeps at all.
\<close>

theorem wait_for_completion_returns_first_terminal:
  assumes "0 < k \<longrightarrow> 0 \<le> poll_interval"
    and "\<forall>i<k. \<exists>s. poll env base_url job_id (length (http_log w) + i) = Inr s \<and> pending s
                   \<and> cb_ok cb s"
    and "poll env base_url job_id (length (http_log w) + k) = Inr s"
    and "is_terminal s" and "cb_ok cb s"
    and "\<forall>i\<le>k. elapsed env w poll_interval i < timeout"
  shows "\<exists>w'. wait_for_completion env base_url job_id poll_interval timeout cb w = Some (Inr s, w')
           \<and> map fst (http_log w')
               = map fst (http_log w) @ replicate (Suc k) (GET (status_url base_url job_id))"
proof -
  from wait_for_completion_run [OF assms] obtain w' where
    "wait_for_completion env base_url job_id poll_interval timeout cb w = Some (Inr s, w')"
    "http_log w'
       = http_log w @ polls_log env (status_url base_url job_id) (length (http_log w)) (Suc k)"
    by blast
  then show ?thesis
    by (intro exI [of _ w']) (simp add: map_fst_polls_log)
qed

theorem wait_for_completion_returns_first_terminal_witness:
  "\<exists>w'. wait_for_completion (mock_env 1 completed_status) API_BASE ''j1'' 1 300
            (Some (show_progress (mock_env 1 completed_status))) world0
          = Some (Inr completed_status, w')
       \<and> map fst (http_log w')
           = [GET (status_url API_BASE ''j1''), GET (status_url API_BASE ''j1'')]"
proof -
  have "length (http_log world0) = 0" by (simp add: world0_def)
  then show ?thesis
    using wait_for_completion_returns_first_terminal
      [where k = 1 and poll_interval = 1 and timeout = 300 and w = world0
         and env = "mock_env 1 completed_status" and base_url = API_BASE and job_id = "''j1''"
         and cb = "Some (show_progress (mock_env 1 completed_status))" and s = completed_status]
    by (simp add: poll_mock pending_processing terminal_completed cb_ok_def
          show_progress_processing show_progress_completed elapsed_mock world0_def
          le_Suc_eq)
qed

text \<open>
  C10. With a timeout of zero or less, and a clock that does not step back between the
  first two readings, \<^verbatim>\<open>wait_for_completion\<close> raises the timeout error at its first
  test of the deadline: it has issued no request and has not called the callback.
\<close>

theorem nonpositive_timeout_polls_nothing:
  assumes "timeout \<le> 0" and "0 \<le> drift env (Suc (time_calls w))"
  shows "\<exists>w'. wait_for_completion env base_url job_id poll_interval timeout cb w
                 = Some (Inl (TimeoutError (''Job '' @ job_id @ '' timeout'')), w')
           \<and> http_log w' = http_log w \<and> cb_calls w' = cb_calls w"
proof -
  let ?w0 = "w\<lparr>now := now w + drift env (time_calls w), time_calls := Suc (time_calls w)\<rparr>"
  have "timeout \<le> now ?w0 + drift env (time_calls ?w0) - (now w + drift env (time_calls w))"
    using assms by simp
  from wait_loop_late [OF this] show ?thesis
    by (simp add: wait_for_completion_unfold)
qed

theorem nonpositive_timeout_polls_nothing_witness:
  "\<exists>w'. wait_for_completion (mock_env 0 completed_status) API_BASE ''j1'' 1 0
            (Some silent_callback) world0
          = Some (Inl (TimeoutError ''Job j1 timeout''), w')
       \<and> http_log w' = [] \<and> cb_calls w' = []"
  using nonpositive_timeout_polls_nothing
    [where timeout = 0 and env = "mock_env 0 completed_status" and w = world0
       and base_url = API_BASE and job_id = "''j1''" and poll_interval = 1
       and cb = "Some silent_callback"]
  by (simp add: mock_env_def world0_def)







section \<open>Lemmas: submissions and the wait of a command\<close>

lemma print_simps [simp]:
  "now (print s w) = now w"
  "time_calls (print s w) = time_calls w"
  "http_log (print s w) = http_log w"
  "cb_calls (print s w) = cb_calls w"
  "fs (print s w) = fs w"
  "stdout (print s w) = stdout w @ [s @ newline]"
  "stderr (print s w) = stderr w"
  by (simp_all add: print_def print_end_def)

lemma print_err_simps [simp]:
  "now (print_err s w) = now w"
  "time_calls (print_err s w) = time_calls w"
  "http_log (print_err s w) = http_log w"
  "cb_calls (print_err s w) = cb_calls w"
  "fs (print_err s w) = fs w"
  "stdout (print_err s w) = stdout w"
  "stderr (print_err s w) = stderr w @ [s @ newline]"
  by (simp_all add: print_err_def)

lemma init_API_BASE: "init_base_url API_BASE = API_BASE"
  by (simp add: init_base_url_def rstrip_slash_def API_BASE_def)

lemma post_job_eq:
  "post_job env url b w =
     (job_id_of env url (respond env (length (http_log w)) (POST url b)),
      w\<lparr>http_log := http_log w @ [(POST url b, respond env (length (http_log w)) (POST url b))]\<rparr>)"
  by (simp add: post_job_def session_post_def send_eq job_id_of_def split: response.splits)

lemma post_job_frame:
  assumes "post_job env url b w = (r, v)"
  shows "r = job_id_of env url (respond env (length (http_log w)) (POST url b))"
    and "http_log v = http_log w @ [(POST url b, respond env (length (http_log w)) (POST url b))]"
    and "now v = now w" and "time_calls v = time_calls w" and "fs v = fs w"
    and "stdout v = stdout w" and "stderr v = stderr w" and "cb_calls v = cb_calls w"
  using assms by (auto simp: post_job_eq)

lemma post_job_fst:
  "length (http_log w') = length (http_log w) \<Longrightarrow>
   fst (post_job env url b w') = fst (post_job env url b w)"
  by (simp add: post_job_eq)

lemma elapsed_cong: "time_calls v = time_calls w \<Longrightarrow> elapsed env v d i = elapsed env w d i"
  by (simp add: elapsed_def)

text \<open>The wait of a command, from any world \<open>v\<close> that the submission has left.\<close>

lemma awaits_run:
  assumes "awaits env cb job_id w k s"
    and "time_calls v = time_calls w" and "length (http_log v) = Suc (length (http_log w))"
  shows "\<exists>w'. wait_for_completion env API_BASE job_id 1 300 cb v = Some (Inr s, w')
           \<and> http_log w' = http_log v @ polls_log env (status_url API_BASE job_id) (length (http_log v)) (Suc k)
           \<and> fs w' = fs v \<and> stderr w' = stderr v
           \<and> (cb = None \<longrightarrow> cb_calls w' = cb_calls v \<and> stdout w' = stdout v)"
proof (rule wait_for_completion_run)
  show "0 < k \<longrightarrow> (0::rat) \<le> 1" by simp
  show "\<forall>i<k. \<exists>s. poll env API_BASE job_id (length (http_log v) + i) = Inr s \<and> pending s \<and> cb_ok cb s"
    using assms by (simp add: awaits_def)
  show "poll env API_BASE job_id (length (http_log v) + k) = Inr s" "is_terminal s" "cb_ok cb s"
    using assms by (simp_all add: awaits_def)
  show "\<forall>i\<le>k. elapsed env v 1 i < 300"
    using assms by (simp add: awaits_def elapsed_cong [OF assms(2)])
qed


text \<open>\<^verbatim>\<open>cmd_speak\<close> from its submission on.\<close>

lemma cmd_speak_submitted:
  assumes "fst (custom_voice env API_BASE text speaker language instruct w) = Inr job_id"
  shows "\<exists>v. cmd_speak env text speaker output language instruct w =
           (case wait_for_completion env API_BASE job_id 1 300 (Some (show_progress env)) v of
              None \<Rightarrow> None
            | Some (Inl e, w4) \<Rightarrow> Some (Inl (Uncaught e), w4)
            | Some (Inr status, w4) \<Rightarrow> Some (save_or_exit env API_BASE status output (print [] w4)))
         \<and> time_calls v = time_calls w
         \<and> http_log v = http_log (snd (custom_voice env API_BASE text speaker language instruct w))
         \<and> length (http_log v) = Suc (length (http_log w))
         \<and> fs v = fs w \<and> stderr v = stderr w"
proof -
  let ?w2 = "print (''Text: '' @ take_chars 60 text @ ''...'')
               (print (''Generating speech with speaker: '' @ speaker) w)"
  obtain r w3 where sub: "custom_voice env API_BASE text speaker language instruct ?w2 = (r, w3)"
    by (cases "custom_voice env API_BASE text speaker language instruct ?w2")
  have "fst (custom_voice env API_BASE text speaker language instruct ?w2)
          = fst (custom_voice env API_BASE text speaker language instruct w)"
    unfolding custom_voice_def by (rule post_job_fst) simp
  with sub assms have r: "r = Inr job_id" by simp
  note fr = post_job_frame [OF sub [unfolded custom_voice_def]]
  have log: "http_log w3
      = http_log (snd (custom_voice env API_BASE text speaker language instruct w))"
    using fr(2) by (simp add: custom_voice_def post_job_eq)
  have cmd: "cmd_speak env text speaker output language instruct w =
           (case wait_for_completion env API_BASE job_id 1 300 (Some (show_progress env))
                   (print (''Job ID: '' @ job_id) w3) of
              None \<Rightarrow> None
            | Some (Inl e, w4) \<Rightarrow> Some (Inl (Uncaught e), w4)
            | Some (Inr status, w4) \<Rightarrow> Some (save_or_exit env API_BASE status output (print [] w4)))"
    unfolding cmd_speak_def Let_def init_API_BASE sub r by simp
  have len: "length (http_log (snd (custom_voice env API_BASE text speaker language instruct w)))
      = Suc (length (http_log w))"
    by (simp add: custom_voice_def post_job_eq)
  show ?thesis
    by (rule exI [of _ "print (''Job ID: '' @ job_id) w3"]) (simp add: cmd log len fr)
qed

text \<open>\<^verbatim>\<open>cmd_design\<close> and \<^verbatim>\<open>cmd_clone\<close> from their submission on.\<close>

lemma cmd_design_submitted:
  assumes "fst (voice_design env API_BASE text description language w) = Inr job_id"
  shows "\<exists>v. cmd_design env text description output language w =
           (case wait_for_completion env API_BASE job_id 1 300 None v of
              None \<Rightarrow> None
            | Some (Inl e, w4) \<Rightarrow> Some (Inl (Uncaught e), w4)
            | Some (Inr status, w4) \<Rightarrow> Some (save_or_exit env API_BASE status output w4))
         \<and> time_calls v = time_calls w
         \<and> http_log v = http_log (snd (voice_design env API_BASE text description language w))
         \<and> length (http_log v) = Suc (length (http_log w))
         \<and> fs v = fs w \<and> stderr v = stderr w"
proof -
  let ?w2 = "print (''Text: '' @ take_chars 60 text @ ''...'')
               (print (''Designing voice: '' @ description) w)"
  obtain r w3 where sub: "voice_design env API_BASE text description language ?w2 = (r, w3)"
    by (cases "voice_design env API_BASE text description language ?w2")
  have "fst (voice_design env API_BASE text description language ?w2)
          = fst (voice_design env API_BASE text description language w)"
    unfolding voice_design_def by (rule post_job_fst) simp
  with sub assms have r: "r = Inr job_id" by simp
  note fr = post_job_frame [OF sub [unfolded voice_design_def]]
  have log: "http_log w3 = http_log (snd (voice_design env API_BASE text description language w))"
    using fr(2) by (simp add: voice_design_def post_job_eq)
  have len: "length (http_log (snd (voice_design env API_BASE text description language w)))
      = Suc (length (http_log w))"
    by (simp add: voice_design_def post_job_eq)
  have cmd: "cmd_design env text description output language w =
           (case wait_for_completion env API_BASE job_id 1 300 None
                   (print (''Job ID: '' @ job_id) w3) of
              None \<Rightarrow> None
            | Some (Inl e, w4) \<Rightarrow> Some (Inl (Uncaught e), w4)
            | Some (Inr status, w4) \<Rightarrow> Some (save_or_exit env API_BASE status output w4))"
    unfolding cmd_design_def Let_def init_API_BASE sub r by simp
  show ?thesis
    by (rule exI [of _ "print (''Job ID: '' @ job_id) w3"]) (simp add: cmd log len fr)
qed

lemma clone_submit_frame:
  assumes "clone_submit env base_url audio text ref_text x_vector_only instruct timbre language w
             = (Inr job_id, v)"
  shows "time_calls v = time_calls w" and "length (http_log v) = Suc (length (http_log w))"
    and "fs v = fs w" and "stderr v = stderr w"
  using assms
  by (auto simp: clone_submit_def Let_def voice_clone_with_timbre_def voice_clone_def post_job_eq
           split: if_splits prod.splits sum.splits option.splits)

lemma cmd_clone_submitted:
  assumes "fst (clone_submit env API_BASE audio text ref_text x_vector_only instruct timbre
                  language w) = Inr job_id"
  shows "\<exists>v. cmd_clone env audio text output ref_text x_vector_only instruct timbre language w =
           (case wait_for_completion env API_BASE job_id 1 300 None v of
              None \<Rightarrow> None
            | Some (Inl e, w4) \<Rightarrow> Some (Inl (Uncaught e), w4)
            | Some (Inr status, w4) \<Rightarrow> Some (save_or_exit env API_BASE status output w4))
         \<and> time_calls v = time_calls w
         \<and> http_log v = http_log (snd (clone_submit env API_BASE audio text ref_text x_vector_only
                                          instruct timbre language w))
         \<and> length (http_log v) = Suc (length (http_log w))
         \<and> fs v = fs w \<and> stderr v = stderr w"
proof -
  obtain w1 where sub: "clone_submit env API_BASE audio text ref_text x_vector_only instruct timbre
                  language w = (Inr job_id, w1)"
    using assms
    by (cases "clone_submit env API_BASE audio text ref_text x_vector_only instruct timbre
                  language w") simp
  note fr = clone_submit_frame [OF sub]
  have cmd: "cmd_clone env audio text output ref_text x_vector_only instruct timbre language w =
           (case wait_for_completion env API_BASE job_id 1 300 None
                   (print (''Job ID: '' @ job_id) (print (''Text: '' @ take_chars 60 text @ ''...'') w1)) of
              None \<Rightarrow> None
            | Some (Inl e, w4) \<Rightarrow> Some (Inl (Uncaught e), w4)
            | Some (Inr status, w4) \<Rightarrow> Some (save_or_exit env API_BASE status output w4))"
    unfolding cmd_clone_def Let_def init_API_BASE sub by simp
  show ?thesis
    by (rule exI [of _ "print (''Job ID: '' @ job_id) (print (''Text: '' @ take_chars 60 text @ ''...'') w1)"])
       (simp add: cmd sub fr)
qed

text \<open>The end of a single-job command on a completed status without a truthy \<^verbatim>\<open>audio_url\<close>.\<close>

lemma save_or_exit_no_audio:
  assumes "subscript s ''status'' = Inr (JStr ''completed'')"
    and "dict_get s ''audio_url'' JNull = Inr a" and "\<not> truthy a"
  shows "save_or_exit env base_url s output w =
           (Inl (SystemExit 1), print_err (cross_mark @ '' Failed: '' @ error_text env s) w)"
proof (cases s)
  case (JObj kvs)
  with assms show ?thesis
    by (simp add: save_or_exit_def completed_with_audio_def error_text_def split: option.splits)
qed (use assms in simp_all)


lemma command_no_audio:
  assumes run: "cmd = (case wait_for_completion env API_BASE job_id 1 300 cb v of
              None \<Rightarrow> None
            | Some (Inl e, w4) \<Rightarrow> Some (Inl (Uncaught e), w4)
            | Some (Inr status, w4) \<Rightarrow> Some (save_or_exit env API_BASE status output (g w4)))"
    and g: "\<And>u. http_log (g u) = http_log u \<and> fs (g u) = fs u \<and> stderr (g u) = stderr u"
    and v: "time_calls v = time_calls w" "http_log v = sent" "length (http_log v) = Suc (length (http_log w))"
      "fs v = fs w" "stderr v = stderr w"
    and wait: "awaits env cb job_id w k s"
    and s: "subscript s ''status'' = Inr (JStr ''completed'')"
      "dict_get s ''audio_url'' JNull = Inr a" "\<not> truthy a"
  shows "\<exists>w'. cmd = Some (Inl (SystemExit 1), w')
           \<and> stderr w' = stderr w @ [cross_mark @ '' Failed: '' @ error_text env s @ newline]
           \<and> fs w' = fs w
           \<and> map fst (http_log w')
               = map fst sent @ replicate (Suc k) (GET (status_url API_BASE job_id))"
proof -
  from awaits_run [OF wait v(1,3)] obtain u where
    u: "wait_for_completion env API_BASE job_id 1 300 cb v = Some (Inr s, u)"
    "http_log u = http_log v @ polls_log env (status_url API_BASE job_id) (length (http_log v)) (Suc k)"
    "fs u = fs v" "stderr u = stderr v"
    by blast
  show ?thesis
    by (intro exI [of _ "print_err (cross_mark @ '' Failed: '' @ error_text env s) (g u)"])
       (simp add: run u v g save_or_exit_no_audio [OF s] map_fst_polls_log
             del: replicate.simps)
qed

section \<open>The claims about the single-job commands\<close>


lemma world0_simps:
  "now world0 = 0" "time_calls world0 = 0" "http_log world0 = []" "cb_calls world0 = []"
  "fs world0 = Map.empty" "stdout world0 = []" "stderr world0 = []"
  by (simp_all add: world0_def)

lemma take_chars_hello: "take_chars 60 ''hello'' = ''hello''"
  by code_simp




lemma custom_voice_mock:
  "respond env = mock_respond k final \<Longrightarrow>
   custom_voice env API_BASE text speaker language instruct w
     = (Inr ''j1'',
        w\<lparr>http_log := http_log w @
            [(POST (API_BASE @ ''/tts/custom-voice'')
                (JsonBody (JObj ([(''text'', JStr text), (''speaker'', JStr speaker),
                                  (''language'', JStr language)] @ opt_json ''instruct'' instruct))),
              Reply 200 ''OK'' (Inr (JObj [(''job_id'', JStr ''j1'')])) [])]\<rparr>)"
  by (simp add: custom_voice_def post_job_eq job_id_of_def mock_respond_def fmt_def)


text \<open>
  C7, as the code has it. When the wait of \<^verbatim>\<open>cmd_speak\<close>, \<^verbatim>\<open>cmd_design\<close> or
  \<^verbatim>\<open>cmd_clone\<close> returns a status \<open>s\<close> whose \<^verbatim>\<open>status\<close> is \<^verbatim>\<open>completed\<close> and
  whose \<^verbatim>\<open>audio_url\<close> is missing (or falsy), the command prints
  \<^verbatim>\<open>Failed: <error>\<close> after the cross mark on standard error, where the error is
  the \<^verbatim>\<open>error\<close> field of \<open>s\<close> or \<^verbatim>\<open>Unknown\<close>, and leaves with
  \<^verbatim>\<open>sys.exit(1)\<close>. Its requests are its submission and the status requests: it
  downloads nothing and writes no file.
\<close>

theorem completed_without_audio_exits_1:
  assumes "subscript s ''status'' = Inr (JStr ''completed'')"
    and "dict_get s ''audio_url'' JNull = Inr a" and "\<not> truthy a"
  shows
   "(fst (custom_voice env API_BASE words speaker language instruct w) = Inr job_id
      \<and> awaits env (Some (show_progress env)) job_id w k s
     \<longrightarrow> (\<exists>w'. cmd_speak env words speaker dest language instruct w = Some (Inl (SystemExit 1), w')
             \<and> stderr w' = stderr w @ [cross_mark @ '' Failed: '' @ error_text env s @ newline]
             \<and> fs w' = fs w
             \<and> map fst (http_log w')
                 = map fst (http_log (snd (custom_voice env API_BASE words speaker language
                                            instruct w)))
                   @ replicate (Suc k) (GET (status_url API_BASE job_id))))
    \<and> (fst (voice_design env API_BASE words description language w) = Inr job_id
      \<and> awaits env None job_id w k s
     \<longrightarrow> (\<exists>w'. cmd_design env words description dest language w = Some (Inl (SystemExit 1), w')
             \<and> stderr w' = stderr w @ [cross_mark @ '' Failed: '' @ error_text env s @ newline]
             \<and> fs w' = fs w
             \<and> map fst (http_log w')
                 = map fst (http_log (snd (voice_design env API_BASE words description language w)))
                   @ replicate (Suc k) (GET (status_url API_BASE job_id))))
    \<and> (fst (clone_submit env API_BASE audio words ref_text x_vector_only instruct timbre
               language w) = Inr job_id
      \<and> awaits env None job_id w k s
     \<longrightarrow> (\<exists>w'. cmd_clone env audio words dest ref_text x_vector_only instruct timbre language w
                  = Some (Inl (SystemExit 1), w')
             \<and> stderr w' = stderr w @ [cross_mark @ '' Failed: '' @ error_text env s @ newline]
             \<and> fs w' = fs w
             \<and> map fst (http_log w')
                 = map fst (http_log (snd (clone_submit env API_BASE audio words ref_text
                                            x_vector_only instruct timbre language w)))
                   @ replicate (Suc k) (GET (status_url API_BASE job_id))))"
proof (intro conjI impI)
  assume h: "fst (custom_voice env API_BASE words speaker language instruct w) = Inr job_id
      \<and> awaits env (Some (show_progress env)) job_id w k s"
  from cmd_speak_submitted [of env words speaker language instruct w job_id dest] h
  obtain v where
    v: "cmd_speak env words speaker dest language instruct w =
           (case wait_for_completion env API_BASE job_id 1 300 (Some (show_progress env)) v of
              None \<Rightarrow> None
            | Some (Inl e, w4) \<Rightarrow> Some (Inl (Uncaught e), w4)
            | Some (Inr status, w4) \<Rightarrow> Some (save_or_exit env API_BASE status dest (print [] w4)))"
       "time_calls v = time_calls w"
       "http_log v = http_log (snd (custom_voice env API_BASE words speaker language instruct w))"
       "length (http_log v) = Suc (length (http_log w))"
       "fs v = fs w" "stderr v = stderr w"
    by blast
  have g: "http_log (print [] u) = http_log u \<and> fs (print [] u) = fs u
             \<and> stderr (print [] u) = stderr u" for u
    by simp
  from h have "awaits env (Some (show_progress env)) job_id w k s" by simp
  from command_no_audio [where g = "print []", OF v(1) g v(2-6) this assms]
  show "\<exists>w'. cmd_speak env words speaker dest language instruct w = Some (Inl (SystemExit 1), w')
             \<and> stderr w' = stderr w @ [cross_mark @ '' Failed: '' @ error_text env s @ newline]
             \<and> fs w' = fs w
             \<and> map fst (http_log w')
                 = map fst (http_log (snd (custom_voice env API_BASE words speaker language
                                            instruct w)))
                   @ replicate (Suc k) (GET (status_url API_BASE job_id))" .
next
  assume h: "fst (voice_design env API_BASE words description language w) = Inr job_id
      \<and> awaits env None job_id w k s"
  from cmd_design_submitted [of env words description language w job_id dest] h
  obtain v where
    v: "cmd_design env words description dest language w =
           (case wait_for_completion env API_BASE job_id 1 300 None v of
              None \<Rightarrow> None
            | Some (Inl e, w4) \<Rightarrow> Some (Inl (Uncaught e), w4)
            | Some (Inr status, w4) \<Rightarrow> Some (save_or_exit env API_BASE status dest ((\<lambda>u. u) w4)))"
       "time_calls v = time_calls w"
       "http_log v = http_log (snd (voice_design env API_BASE words description language w))"
       "length (http_log v) = Suc (length (http_log w))"
       "fs v = fs w" "stderr v = stderr w"
    by auto
  have g: "http_log ((\<lambda>u. u) u) = http_log u \<and> fs ((\<lambda>u. u) u) = fs u
             \<and> stderr ((\<lambda>u. u) u) = stderr u" for u :: world
    by simp
  from h have "awaits env None job_id w k s" by simp
  from command_no_audio [where g = "\<lambda>u. u", OF v(1) g v(2-6) this assms]
  show "\<exists>w'. cmd_design env words description dest language w = Some (Inl (SystemExit 1), w')
             \<and> stderr w' = stderr w @ [cross_mark @ '' Failed: '' @ error_text env s @ newline]
             \<and> fs w' = fs w
             \<and> map fst (http_log w')
                 = map fst (http_log (snd (voice_design env API_BASE words description language w)))
                   @ replicate (Suc k) (GET (status_url API_BASE job_id))" .
next
  assume h: "fst (clone_submit env API_BASE audio words ref_text x_vector_only instruct timbre
               language w) = Inr job_id
      \<and> awaits env None job_id w k s"
  from cmd_clone_submitted [of env audio words ref_text x_vector_only instruct timbre language w
      job_id dest] h
  obtain v where
    v: "cmd_clone env audio words dest ref_text x_vector_only instruct timbre language w =
           (case wait_for_completion env API_BASE job_id 1 300 None v of
              None \<Rightarrow> None
            | Some (Inl e, w4) \<Rightarrow> Some (Inl (Uncaught e), w4)
            | Some (Inr status, w4) \<Rightarrow> Some (save_or_exit env API_BASE status dest ((\<lambda>u. u) w4)))"
       "time_calls v = time_calls w"
       "http_log v = http_log (snd (clone_submit env API_BASE audio words ref_text x_vector_only
                                      instruct timbre language w))"
       "length (http_log v) = Suc (length (http_log w))"
       "fs v = fs w" "stderr v = stderr w"
    by auto
  have g: "http_log ((\<lambda>u. u) u) = http_log u \<and> fs ((\<lambda>u. u) u) = fs u
             \<and> stderr ((\<lambda>u. u) u) = stderr u" for u :: world
    by simp
  from h have "awaits env None job_id w k s" by simp
  from command_no_audio [where g = "\<lambda>u. u", OF v(1) g v(2-6) this assms]
  show "\<exists>w'. cmd_clone env audio words dest ref_text x_vector_only instruct timbre language w
                  = Some (Inl (SystemExit 1), w')
             \<and> stderr w' = stderr w @ [cross_mark @ '' Failed: '' @ error_text env s @ newline]
             \<and> fs w' = fs w
             \<and> map fst (http_log w')
                 = map fst (http_log (snd (clone_submit env API_BASE audio words ref_text
                                            x_vector_only instruct timbre language w)))
                   @ replicate (Suc k) (GET (status_url API_BASE job_id))" .
qed

lemma wait_for_completion_immediate:
  assumes "poll env base_url job_id (length (http_log w)) = Inr s"
    and "is_terminal s" and "cb_ok cb s" and "drift env (Suc (time_calls w)) < timeout"
  shows "wait_for_completion env base_url job_id poll_interval timeout cb w =
     Some (Inr s, snd (run_callback cb s (polled env (status_url base_url job_id)
             (w\<lparr>now := now w + drift env (time_calls w), time_calls := Suc (time_calls w)\<rparr>))))"
proof -
  let ?w0 = "w\<lparr>now := now w + drift env (time_calls w), time_calls := Suc (time_calls w)\<rparr>"
  have t: "now ?w0 + drift env (time_calls ?w0) - (now w + drift env (time_calls w)) < timeout"
    using assms(4) by simp
  have p: "poll env base_url job_id (length (http_log ?w0)) = Inr s"
    using assms(1) by simp
  show ?thesis
    unfolding wait_for_completion_unfold by (rule wait_loop_terminal [OF t p assms(3,2)])
qed

lemma no_audio_facts:
  "subscript no_audio_status ''status'' = Inr (JStr ''completed'')"
  "dict_get no_audio_status ''audio_url'' JNull = Inr JNull"
  "is_terminal no_audio_status"
  "error_text env no_audio_status = ''Unknown''"
  "show_progress env seen no_audio_status = (Inr no_audio_status, [], 0)"
  by (simp_all add: no_audio_status_def is_terminal_def terminal_states_def error_text_def fmt_def
        show_progress_def)

lemma respond_mock: "respond (mock_env k final) = mock_respond k final"
  by (simp add: mock_env_def)

lemma drift_mock: "drift (mock_env k final) n = 0"
  by (simp add: mock_env_def)

lemma voice_design_mock:
  "respond env = mock_respond k final \<Longrightarrow>
   voice_design env API_BASE words description language w
     = (Inr ''j1'',
        w\<lparr>http_log := http_log w @
            [(POST (API_BASE @ ''/tts/voice-design'')
                (JsonBody (JObj [(''text'', JStr words), (''instruct'', JStr description),
                                 (''language'', JStr language)])),
              Reply 200 ''OK'' (Inr (JObj [(''job_id'', JStr ''j1'')])) [])]\<rparr>)"
  by (simp add: voice_design_def post_job_eq job_id_of_def mock_respond_def fmt_def)

lemma voice_clone_with_timbre_mock:
  "respond env = mock_respond k final \<Longrightarrow>
   voice_clone_with_timbre env API_BASE words timbre_speaker language instruct w
     = (Inr ''j1'',
        w\<lparr>http_log := http_log w @
            [(POST (API_BASE @ ''/tts/custom-voice'')
                (JsonBody (JObj ([(''text'', JStr words), (''speaker'', JStr timbre_speaker),
                                  (''language'', JStr language), (''mode'', JStr ''clone'')]
                                 @ opt_json ''instruct'' instruct))),
              Reply 200 ''OK'' (Inr (JObj [(''job_id'', JStr ''j1'')])) [])]\<rparr>)"
  by (simp add: voice_clone_with_timbre_def post_job_eq job_id_of_def mock_respond_def fmt_def)

theorem completed_without_audio_exits_1_witness:
  "(\<exists>w'. cmd_speak (mock_env 0 no_audio_status) ''hello'' ''vivian'' ''out.wav'' ''Auto'' None world0
            = Some (Inl (SystemExit 1), w')
        \<and> stderr w' = [cross_mark @ '' Failed: Unknown'' @ newline]
        \<and> fs w' ''out.wav'' = None
        \<and> map fst (http_log w')
            = [POST (API_BASE @ ''/tts/custom-voice'')
                 (JsonBody (JObj [(''text'', JStr ''hello''), (''speaker'', JStr ''vivian''),
                                  (''language'', JStr ''Auto'')])),
               GET (status_url API_BASE ''j1'')])
   \<and> (\<exists>w'. cmd_design (mock_env 0 no_audio_status) ''hello'' ''a calm voice'' ''out.wav'' ''Auto''
              world0
            = Some (Inl (SystemExit 1), w')
        \<and> stderr w' = [cross_mark @ '' Failed: Unknown'' @ newline]
        \<and> fs w' ''out.wav'' = None
        \<and> map fst (http_log w')
            = [POST (API_BASE @ ''/tts/voice-design'')
                 (JsonBody (JObj [(''text'', JStr ''hello''), (''instruct'', JStr ''a calm voice''),
                                  (''language'', JStr ''Auto'')])),
               GET (status_url API_BASE ''j1'')])
   \<and> (\<exists>w'. cmd_clone (mock_env 0 no_audio_status) ''ref.wav'' ''hello'' ''out.wav'' None False None
              (Some ''vivian'') ''Auto'' world0
            = Some (Inl (SystemExit 1), w')
        \<and> stderr w' = [cross_mark @ '' Failed: Unknown'' @ newline]
        \<and> fs w' ''out.wav'' = None
        \<and> map fst (http_log w')
            = [POST (API_BASE @ ''/tts/custom-voice'')
                 (JsonBody (JObj [(''text'', JStr ''hello''), (''speaker'', JStr ''vivian''),
                                  (''language'', JStr ''Auto''), (''mode'', JStr ''clone'')])),
               GET (status_url API_BASE ''j1'')])"
proof -
  note inst = completed_without_audio_exits_1
    [where s = no_audio_status and a = JNull and env = "mock_env 0 no_audio_status"
       and words = "''hello''" and speaker = "''vivian''" and language = "''Auto''"
       and instruct = None and w = world0 and job_id = "''j1''" and k = 0
       and dest = "''out.wav''" and description = "''a calm voice''" and audio = "''ref.wav''"
       and ref_text = None and x_vector_only = False and timbre = "Some ''vivian''",
     OF no_audio_facts(1,2)]
  have aw: "awaits (mock_env 0 no_audio_status) cb ''j1'' world0 0 no_audio_status"
    if "cb_ok cb no_audio_status" for cb
    using that by (simp add: awaits_def poll_mock no_audio_facts elapsed_mock world0_simps)
  have a: "\<exists>w'. cmd_speak (mock_env 0 no_audio_status) ''hello'' ''vivian'' ''out.wav'' ''Auto'' None
              world0 = Some (Inl (SystemExit 1), w')
        \<and> stderr w' = [cross_mark @ '' Failed: Unknown'' @ newline]
        \<and> fs w' ''out.wav'' = None
        \<and> map fst (http_log w')
            = [POST (API_BASE @ ''/tts/custom-voice'')
                 (JsonBody (JObj [(''text'', JStr ''hello''), (''speaker'', JStr ''vivian''),
                                  (''language'', JStr ''Auto'')])),
               GET (status_url API_BASE ''j1'')]"
    using inst [THEN conjunct1]
    by (auto simp: custom_voice_mock [OF respond_mock] aw cb_ok_def no_audio_facts world0_simps)
  have b: "\<exists>w'. cmd_design (mock_env 0 no_audio_status) ''hello'' ''a calm voice'' ''out.wav'' ''Auto''
              world0 = Some (Inl (SystemExit 1), w')
        \<and> stderr w' = [cross_mark @ '' Failed: Unknown'' @ newline]
        \<and> fs w' ''out.wav'' = None
        \<and> map fst (http_log w')
            = [POST (API_BASE @ ''/tts/voice-design'')
                 (JsonBody (JObj [(''text'', JStr ''hello''), (''instruct'', JStr ''a calm voice''),
                                  (''language'', JStr ''Auto'')])),
               GET (status_url API_BASE ''j1'')]"
    using inst [THEN conjunct2, THEN conjunct1]
    by (auto simp: voice_design_mock [OF respond_mock] aw cb_ok_def no_audio_facts world0_simps)
  have c: "\<exists>w'. cmd_clone (mock_env 0 no_audio_status) ''ref.wav'' ''hello'' ''out.wav'' None False
              None (Some ''vivian'') ''Auto'' world0 = Some (Inl (SystemExit 1), w')
        \<and> stderr w' = [cross_mark @ '' Failed: Unknown'' @ newline]
        \<and> fs w' ''out.wav'' = None
        \<and> map fst (http_log w')
            = [POST (API_BASE @ ''/tts/custom-voice'')
                 (JsonBody (JObj [(''text'', JStr ''hello''), (''speaker'', JStr ''vivian''),
                                  (''language'', JStr ''Auto''), (''mode'', JStr ''clone'')])),
               GET (status_url API_BASE ''j1'')]"
    using inst [THEN conjunct2, THEN conjunct2]
    by (auto simp: clone_submit_def Let_def voice_clone_with_timbre_mock [OF respond_mock] aw
          cb_ok_def no_audio_facts world0_simps)
  from a b c show ?thesis by blast
qed

text \<open>
  C7 as the specification states it fails on the message: for a completed status with
  no \<^verbatim>\<open>audio_url\<close> and no \<^verbatim>\<open>error\<close>, \<^verbatim>\<open>cmd_speak\<close> exits with status 1 and
  has issued no download, but all it has printed is the lines below, on standard error
  \<^verbatim>\<open>Failed: Unknown\<close>; nothing it has printed says \<^verbatim>\<open>no audio produced\<close>.
\<close>

theorem no_audio_message_counterexample:
  "map_option (\<lambda>(r, w'). (r, stdout w', stderr w', map fst (http_log w')))
     (cmd_speak (mock_env 0 no_audio_status) ''hello'' ''vivian'' ''out.wav'' ''Auto'' None world0)
   = Some (Inl (SystemExit 1),
           [''Generating speech with speaker: vivian'' @ newline, ''Text: hello...'' @ newline,
            ''Job ID: j1'' @ newline, newline],
           [cross_mark @ '' Failed: Unknown'' @ newline],
           [POST (API_BASE @ ''/tts/custom-voice'')
              (JsonBody (JObj [(''text'', JStr ''hello''), (''speaker'', JStr ''vivian''),
                               (''language'', JStr ''Auto'')])),
            GET (status_url API_BASE ''j1'')])
   \<and> filter (sublist ''no audio produced'')
        [''Generating speech with speaker: vivian'' @ newline, ''Text: hello...'' @ newline,
         ''Job ID: j1'' @ newline, newline, cross_mark @ '' Failed: Unknown'' @ newline] = []"
proof
  have ok: "cb_ok (Some (show_progress (mock_env 0 no_audio_status))) no_audio_status"
    by (simp add: cb_ok_def no_audio_facts)
  show "map_option (\<lambda>(r, w'). (r, stdout w', stderr w', map fst (http_log w')))
     (cmd_speak (mock_env 0 no_audio_status) ''hello'' ''vivian'' ''out.wav'' ''Auto'' None world0)
   = Some (Inl (SystemExit 1),
           [''Generating speech with speaker: vivian'' @ newline, ''Text: hello...'' @ newline,
            ''Job ID: j1'' @ newline, newline],
           [cross_mark @ '' Failed: Unknown'' @ newline],
           [POST (API_BASE @ ''/tts/custom-voice'')
              (JsonBody (JObj [(''text'', JStr ''hello''), (''speaker'', JStr ''vivian''),
                               (''language'', JStr ''Auto'')])),
            GET (status_url API_BASE ''j1'')])"
    by (simp add: cmd_speak_def Let_def init_API_BASE custom_voice_mock [OF respond_mock]
          wait_for_completion_immediate [OF _ no_audio_facts(3) ok] poll_mock
          save_or_exit_no_audio [OF no_audio_facts(1,2)] no_audio_facts run_callback_def
          world0_simps drift_mock take_chars_hello)
  show "filter (sublist ''no audio produced'')
        [''Generating speech with speaker: vivian'' @ newline, ''Text: hello...'' @ newline,
         ''Job ID: j1'' @ newline, newline, cross_mark @ '' Failed: Unknown'' @ newline] = []"
    by (simp add: newline_def cross_mark_def sublist_Cons_right)
qed

section \<open>The claims about the client's methods\<close>




lemma write_file_simps [simp]:
  "now (write_file p c w) = now w"
  "time_calls (write_file p c w) = time_calls w"
  "http_log (write_file p c w) = http_log w"
  "cb_calls (write_file p c w) = cb_calls w"
  "fs (write_file p c w) = (fs w)(p \<mapsto> c)"
  "stdout (write_file p c w) = stdout w"
  "stderr (write_file p c w) = stderr w"
  by (simp_all add: write_file_def)

lemma fetch_log:
  "http_log (snd (case session_get env url w of
                    (Inl e, w1) \<Rightarrow> (Inl e, w1)
                  | (Inr resp, w1) \<Rightarrow>
                     (case raise_for_status url resp of
                        Inl e \<Rightarrow> (Inl e, w1)
                      | Inr _ \<Rightarrow> (Inr (), write_file p (resp_content resp) w1))))
     = http_log w @ [(GET url, respond env (length (http_log w)) (GET url))]"
  by (simp add: session_get_def send_eq split: response.splits sum.splits)

text \<open>
  C6, as the code has it. \<^verbatim>\<open>download_audio\<close> issues one request, for the address
  it is given when that starts with \<^verbatim>\<open>http\<close>, for the base URL followed by the
  address when that starts with a slash, and for the base URL, a slash and the address
  otherwise.
\<close>

theorem download_fetches_completed_address:
  "map fst (http_log (snd (download_audio env base_url (JStr u) dest w)))
     = map fst (http_log w)
       @ [GET (if prefix ''/'' u then base_url @ u
               else if prefix ''http'' u then u
               else base_url @ ''/'' @ u)]"
  by (simp add: download_audio_def Let_def fetch_log)

text \<open>
  C6 as the specification states it fails for an address that starts with a slash: it
  is appended to the whole base URL, path included, and not to its origin.
\<close>

theorem download_keeps_base_path_counterexample:
  "map fst (http_log (snd (download_audio (mock_env 0 completed_status) API_BASE
                              (JStr ''/files/j1.wav'') ''out.wav'' world0)))
     = [GET ''https://mc.agaii.org/TTS/api/v1/files/j1.wav'']
   \<and> spec_origin API_BASE @ ''/files/j1.wav'' = ''https://mc.agaii.org/files/j1.wav''
   \<and> GET (spec_origin API_BASE @ ''/files/j1.wav'')
       \<notin> set (map fst (http_log (snd (download_audio (mock_env 0 completed_status) API_BASE
                                          (JStr ''/files/j1.wav'') ''out.wav'' world0))))"
  by (simp add: download_audio_def Let_def fetch_log API_BASE_def spec_origin_def world0_simps)

section \<open>Lemmas: the batch loops\<close>

lemma submissions_simps [simp]:
  "submissions [] = 0"
  "submissions (xs @ ys) = submissions xs + submissions ys"
  "submissions ((GET url, r) # xs) = submissions xs"
  "submissions ((POST url b, r) # xs) = Suc (submissions xs)"
  by (simp_all add: submissions_def)




text \<open>
  The second half of the body of the \<^verbatim>\<open>try\<close>: it submits nothing, keeps the files
  that exist, and the entry it returns carries the name of the file.
\<close>

lemma entry_file_results_entry [simp]:
  "entry_file (results_entry f outcome extra) = Inr (JStr (file_name f))"
  by (simp add: entry_file_def results_entry_def)








lemma batch_speak_loop_entry:
  assumes "read_text f = Inr raw" and "strip raw \<noteq> []"
    and "batch_speak_file env base_url output_path speaker language instruct f (strip raw)
           (print (header i n_files f) w) = Some (Inr entry, v)"
  shows "batch_speak_loop env base_url output_path speaker language instruct n_files i (f # files)
           results w
         = batch_speak_loop env base_url output_path speaker language instruct n_files (Suc i) files
             (results @ [entry]) v"
  using assms by (simp add: Let_def header_def)




lemma batch_clone_loop_entry:
  assumes "read_text f = Inr raw" and "strip raw \<noteq> []"
    and "batch_clone_file env base_url output_path reference_audio ref_text language f (strip raw)
           (print (header i n_files f) w) = Some (Inr entry, v)"
  shows "batch_clone_loop env base_url output_path reference_audio ref_text language n_files i
           (f # files) results w
         = batch_clone_loop env base_url output_path reference_audio ref_text language n_files
             (Suc i) files (results @ [entry]) v"
  using assms by (simp add: Let_def header_def)

declare batch_speak_loop.simps(2) [simp del] batch_clone_loop.simps(2) [simp del]





section \<open>Lemmas: a file among the others\<close>







section \<open>The claims about the batch commands\<close>

lemma file_facts:
  "read_text file_a = Inr ''hello''" "strip ''hello'' = ''hello''" "file_name file_a = ''a.txt''"
  "readable file_a" "\<not> blank file_a"
  "read_text file_b = Inr [CHR 0x20, CHR 0xC2, CHR 0xA0, CHR 0x0A, CHR 0xE3, CHR 0x80, CHR 0x80]"
  "strip [CHR 0x20, CHR 0xC2, CHR 0xA0, CHR 0x0A, CHR 0xE3, CHR 0x80, CHR 0x80] = []"
  "readable file_b" "blank file_b"
proof -
  show a: "strip ''hello'' = ''hello''" by code_simp
  show b: "strip [CHR 0x20, CHR 0xC2, CHR 0xA0, CHR 0x0A, CHR 0xE3, CHR 0x80, CHR 0x80] = []"
    by code_simp
  show "read_text file_a = Inr ''hello''" "file_name file_a = ''a.txt''" "readable file_a"
    "read_text file_b = Inr [CHR 0x20, CHR 0xC2, CHR 0xA0, CHR 0x0A, CHR 0xE3, CHR 0x80, CHR 0x80]"
    "readable file_b"
    by (simp_all add: file_a_def file_b_def readable_def)
  show "\<not> blank file_a" by (simp add: blank_def file_a_def a)
  show "blank file_b" by (simp add: blank_def file_b_def b)
qed



lemma world_ref_simps:
  "now world_ref = 0" "time_calls world_ref = 0" "http_log world_ref = []"
  "fs world_ref ''ref.wav'' = Some ''RIFF''" "stdout world_ref = []" "stderr world_ref = []"
  by (simp_all add: world_ref_def world0_simps)

lemma path_out:
  "Path ''out'' = ''out''" "path_div ''out'' ''batch_report.json'' = ''out/batch_report.json''"
  "path_div ''out'' ''a.wav'' = ''out/a.wav''" "path_name ''out/a.wav'' = ''a.wav''"
  by code_simp+


text \<open>
  The service that refuses its first request: the body of the \<^verbatim>\<open>try\<close> raises for
  the file that comes first, and succeeds for a file that comes later.
\<close>

lemma completed_facts:
  "completed_with_audio completed_status = Inr True"
  "subscript completed_status ''audio_url'' = Inr (JStr ''/files/j1.wav'')"
  by (simp_all add: completed_with_audio_def completed_status_def)
















section \<open>The report of the batch commands\<close>

text \<open>One file on the mock service, whose job is completed at the first poll.\<close>

lemma wait_mock_completed:
  "\<exists>v. wait_for_completion (mock_env 0 completed_status) API_BASE ''j1'' 1 300 None w
          = Some (Inr completed_status, v)
       \<and> fs v = fs w \<and> stdout v = stdout w"
proof -
  have p: "poll (mock_env 0 completed_status) API_BASE ''j1'' (length (http_log w))
             = Inr completed_status"
    by (simp add: poll_mock)
  have c: "cb_ok None completed_status" by (simp add: cb_ok_def)
  have d: "drift (mock_env 0 completed_status) (Suc (time_calls w)) < 300"
    by (simp add: drift_mock)
  show ?thesis
    unfolding wait_for_completion_immediate [OF p terminal_completed c d]
    by (simp add: run_callback_None)
qed

lemma download_mock:
  "\<exists>v. download_audio (mock_env k final) API_BASE (JStr ''/files/j1.wav'') p w = (Inr (), v)
       \<and> fs v = (fs w)(p \<mapsto> ''RIFF'') \<and> stdout v = stdout w"
  by (simp add: download_audio_def session_get_def send_eq respond_mock mock_respond_def
        status_url_def API_BASE_def)

lemma batch_clone_record_mock:
  "\<exists>v. batch_clone_record (mock_env k final) API_BASE out f completed_status w
          = (Inr (results_entry f ''success'' []), v)
       \<and> fs v = (fs w)(path_div out (file_stem f @ ''.wav'') \<mapsto> ''RIFF'')
       \<and> stdout v = stdout w @ [''  '' @ check_mark @ '' '' @ path_name (path_div out (file_stem f @ ''.wav'')) @ newline]"
proof -
  from download_mock [of k final "path_div out (file_stem f @ ''.wav'')" w]
  obtain v where "download_audio (mock_env k final) API_BASE (JStr ''/files/j1.wav'')
                    (path_div out (file_stem f @ ''.wav'')) w = (Inr (), v)"
    "fs v = (fs w)(path_div out (file_stem f @ ''.wav'') \<mapsto> ''RIFF'')" "stdout v = stdout w"
    by blast
  then show ?thesis
    by (simp add: batch_clone_record_def completed_facts Let_def)
qed

lemma batch_speak_record_mock:
  "\<exists>v. batch_speak_record (mock_env k final) API_BASE out f completed_status w
          = (Inr (results_entry f ''success''
                    [(''output'', JStr (path_div out (file_stem f @ ''.wav'')))]), v)
       \<and> fs v = (fs w)(path_div out (file_stem f @ ''.wav'') \<mapsto> ''RIFF'')
       \<and> stdout v = stdout w @ [''  '' @ check_mark @ '' '' @ path_name (path_div out (file_stem f @ ''.wav'')) @ newline]"
proof -
  from download_mock [of k final "path_div out (file_stem f @ ''.wav'')" w]
  obtain v where "download_audio (mock_env k final) API_BASE (JStr ''/files/j1.wav'')
                    (path_div out (file_stem f @ ''.wav'')) w = (Inr (), v)"
    "fs v = (fs w)(path_div out (file_stem f @ ''.wav'') \<mapsto> ''RIFF'')" "stdout v = stdout w"
    by blast
  then show ?thesis
    by (simp add: batch_speak_record_def completed_facts Let_def)
qed

lemma voice_clone_mock:
  "fs w audio_path = Some audio \<Longrightarrow>
   \<exists>v. voice_clone (mock_env k final) API_BASE words audio_path language ref_text x instruct w
          = (Inr ''j1'', v)
       \<and> fs v = fs w \<and> stdout v = stdout w"
  by (simp add: voice_clone_def post_job_eq job_id_of_def respond_mock mock_respond_def fmt_def)

lemma batch_clone_file_mock:
  assumes "fs w audio_path = Some audio"
  shows "\<exists>v. batch_clone_file (mock_env 0 completed_status) API_BASE out audio_path ref_text
                language f words w = Some (Inr (results_entry f ''success'' []), v)
       \<and> fs v = (fs w)(path_div out (file_stem f @ ''.wav'') \<mapsto> ''RIFF'')
       \<and> stdout v = stdout w @ [''  '' @ arrow @ '' j1'' @ newline,
                                  ''  '' @ check_mark @ '' '' @ path_name (path_div out (file_stem f @ ''.wav'')) @ newline]"
proof -
  from voice_clone_mock [OF assms, of 0 completed_status words language ref_text False None]
  obtain w1 where w1: "voice_clone (mock_env 0 completed_status) API_BASE words audio_path language
                         ref_text False None w = (Inr ''j1'', w1)"
    "fs w1 = fs w" "stdout w1 = stdout w"
    by blast
  from wait_mock_completed [of "print (''  '' @ arrow @ '' '' @ ''j1'') w1"]
  obtain w2 where w2: "wait_for_completion (mock_env 0 completed_status) API_BASE ''j1'' 1 300 None
                         (print (''  '' @ arrow @ '' '' @ ''j1'') w1)
                       = Some (Inr completed_status, w2)"
    "fs w2 = fs w1" "stdout w2 = stdout w1 @ [''  '' @ arrow @ '' j1'' @ newline]"
    by auto
  from batch_clone_record_mock [of 0 completed_status out f w2]
  obtain v where v: "batch_clone_record (mock_env 0 completed_status) API_BASE out f
                       completed_status w2 = (Inr (results_entry f ''success'' []), v)"
    "fs v = (fs w2)(path_div out (file_stem f @ ''.wav'') \<mapsto> ''RIFF'')"
    "stdout v = stdout w2 @ [''  '' @ check_mark @ '' '' @ path_name (path_div out (file_stem f @ ''.wav'')) @ newline]"
    by blast
  have "batch_clone_file (mock_env 0 completed_status) API_BASE out audio_path ref_text
                language f words w = Some (Inr (results_entry f ''success'' []), v)"
    unfolding batch_clone_file_def w1(1) by (simp add: w2(1) [simplified] v(1))
  then show ?thesis using v w2 w1 by simp
qed

lemma batch_speak_file_mock:
  "\<exists>v. batch_speak_file (mock_env 0 completed_status) API_BASE out speaker language instruct
                f words w
          = Some (Inr (results_entry f ''success''
                         [(''output'', JStr (path_div out (file_stem f @ ''.wav'')))]), v)
       \<and> fs v = (fs w)(path_div out (file_stem f @ ''.wav'') \<mapsto> ''RIFF'')
       \<and> stdout v = stdout w @ [''  '' @ arrow @ '' j1'' @ newline,
                                  ''  '' @ check_mark @ '' '' @ path_name (path_div out (file_stem f @ ''.wav'')) @ newline]"
proof -
  let ?w1 = "w\<lparr>http_log := http_log w @
            [(POST (API_BASE @ ''/tts/custom-voice'')
                (JsonBody (JObj ([(''text'', JStr words), (''speaker'', JStr speaker),
                                  (''language'', JStr language)] @ opt_json ''instruct'' instruct))),
              Reply 200 ''OK'' (Inr (JObj [(''job_id'', JStr ''j1'')])) [])]\<rparr>"
  note w1 = custom_voice_mock [OF respond_mock, of 0 completed_status words speaker language
      instruct w]
  from wait_mock_completed [of "print (''  '' @ arrow @ '' '' @ ''j1'') ?w1"]
  obtain w2 where w2: "wait_for_completion (mock_env 0 completed_status) API_BASE ''j1'' 1 300 None
                         (print (''  '' @ arrow @ '' '' @ ''j1'') ?w1)
                       = Some (Inr completed_status, w2)"
    "fs w2 = fs w" "stdout w2 = stdout w @ [''  '' @ arrow @ '' j1'' @ newline]"
    by auto
  from batch_speak_record_mock [of 0 completed_status out f w2]
  obtain v where v: "batch_speak_record (mock_env 0 completed_status) API_BASE out f
                       completed_status w2
                     = (Inr (results_entry f ''success''
                               [(''output'', JStr (path_div out (file_stem f @ ''.wav'')))]), v)"
    "fs v = (fs w2)(path_div out (file_stem f @ ''.wav'') \<mapsto> ''RIFF'')"
    "stdout v = stdout w2 @ [''  '' @ check_mark @ '' '' @ path_name (path_div out (file_stem f @ ''.wav'')) @ newline]"
    by blast
  have "batch_speak_file (mock_env 0 completed_status) API_BASE out speaker language instruct
                f words w
          = Some (Inr (results_entry f ''success''
                         [(''output'', JStr (path_div out (file_stem f @ ''.wav'')))]), v)"
    unfolding batch_speak_file_def w1 by (simp add: w2(1) [simplified] v(1))
  then show ?thesis using v w2 by simp
qed

lemma batch_clone_loop_mock:
  assumes "fs w ''ref.wav'' = Some audio"
  shows "\<exists>v. batch_clone_loop (mock_env 0 completed_status) API_BASE ''out'' ''ref.wav'' None
                ''Auto'' 1 1 [file_a] [] w
              = Some (Inr [JObj [(''file'', JStr ''a.txt''), (''status'', JStr ''success'')]], v)
           \<and> fs v = (fs w)(''out/a.wav'' \<mapsto> ''RIFF'')"
proof -
  have ref: "fs (print (header 1 1 file_a) w) ''ref.wav'' = Some audio"
    using assms by simp
  from batch_clone_file_mock [OF ref, of "''out''" None "''Auto''" file_a "strip ''hello''"]
  obtain v where v: "batch_clone_file (mock_env 0 completed_status) API_BASE ''out'' ''ref.wav''
                       None ''Auto'' file_a (strip ''hello'') (print (header 1 1 file_a) w)
                     = Some (Inr (results_entry file_a ''success'' []), v)"
    "fs v = (fs w)(path_div ''out'' (file_stem file_a @ ''.wav'') \<mapsto> ''RIFF'')"
    by auto
  have nonblank: "strip ''hello'' \<noteq> []" by (simp add: file_facts)
  have stem: "file_stem file_a = ''a''" by (simp add: file_a_def)
  show ?thesis
    unfolding batch_clone_loop_entry [OF file_facts(1) nonblank v(1)]
    using v(2) by (simp add: results_entry_def file_facts stem path_out)
qed

lemma batch_speak_loop_mock:
  "\<exists>v. batch_speak_loop (mock_env 0 completed_status) API_BASE ''out'' ''vivian'' ''Auto'' None
          1 1 [file_a] [] w
        = Some (Inr [JObj [(''file'', JStr ''a.txt''), (''status'', JStr ''success''),
                           (''output'', JStr ''out/a.wav'')]], v)
     \<and> fs v = (fs w)(''out/a.wav'' \<mapsto> ''RIFF'')"
proof -
  from batch_speak_file_mock [of "''out''" "''vivian''" "''Auto''" None file_a "strip ''hello''"
      "print (header 1 1 file_a) w"]
  obtain v where v: "batch_speak_file (mock_env 0 completed_status) API_BASE ''out'' ''vivian''
                       ''Auto'' None file_a (strip ''hello'') (print (header 1 1 file_a) w)
                     = Some (Inr (results_entry file_a ''success''
                                    [(''output'', JStr (path_div ''out'' (file_stem file_a @ ''.wav'')))]), v)"
    "fs v = (fs w)(path_div ''out'' (file_stem file_a @ ''.wav'') \<mapsto> ''RIFF'')"
    by auto
  have nonblank: "strip ''hello'' \<noteq> []" by (simp add: file_facts)
  have stem: "file_stem file_a = ''a''" by (simp add: file_a_def)
  show ?thesis
    unfolding batch_speak_loop_entry [OF file_facts(1) nonblank v(1)]
    using v(2) by (simp add: results_entry_def file_facts stem path_out)
qed

text \<open>
  C4. The two commands on the same listing, the one file \<^verbatim>\<open>a.txt\<close> holding
  \<^verbatim>\<open>hello\<close>, with a service that completes the job at the first poll.
  \<^verbatim>\<open>cmd_batch_speak\<close> records the path of the audio in its entry and writes
  \<^verbatim>\<open>out/batch_report.json\<close>. \<^verbatim>\<open>cmd_batch_clone\<close> writes the audio and prints the
  summary, but its entry has no \<^verbatim>\<open>output\<close> and it writes no report.
\<close>

theorem batch_clone_writes_no_report:
  "map_option fst
     (batch_speak_loop (mock_env 0 completed_status) API_BASE ''out'' ''vivian'' ''Auto'' None
        1 1 [file_a] [] world0)
     = Some (Inr [JObj [(''file'', JStr ''a.txt''), (''status'', JStr ''success''),
                        (''output'', JStr ''out/a.wav'')]])
   \<and> map_option (\<lambda>(r, v). (r, fs v ''out/a.wav'', fs v ''out/batch_report.json''))
       (cmd_batch_speak (mock_env 0 completed_status) [file_a] ''out'' ''vivian'' ''Auto'' None
          world0)
     = Some (Inr (), Some ''RIFF'',
             Some (dumps (mock_env 0 completed_status)
                     (JArr [JObj [(''file'', JStr ''a.txt''), (''status'', JStr ''success''),
                                  (''output'', JStr ''out/a.wav'')]])))
   \<and> map_option fst
       (batch_clone_loop (mock_env 0 completed_status) API_BASE ''out'' ''ref.wav'' None ''Auto''
          1 1 [file_a] [] world_ref)
     = Some (Inr [JObj [(''file'', JStr ''a.txt''), (''status'', JStr ''success'')]])
   \<and> map_option (\<lambda>(r, v). (r, fs v ''out/a.wav'', fs v ''out/batch_report.json'', last (stdout v)))
       (cmd_batch_clone (mock_env 0 completed_status) [file_a] ''out'' ''ref.wav'' None ''Auto''
          world_ref)
     = Some (Inr (), Some ''RIFF'', None, newline @ ''Complete: 1/1 successful'' @ newline)"
proof (intro conjI)
  from batch_speak_loop_mock [of world0]
  show "map_option fst
     (batch_speak_loop (mock_env 0 completed_status) API_BASE ''out'' ''vivian'' ''Auto'' None
        1 1 [file_a] [] world0)
     = Some (Inr [JObj [(''file'', JStr ''a.txt''), (''status'', JStr ''success''),
                        (''output'', JStr ''out/a.wav'')]])"
    by auto
next
  let ?w1 = "print (''Found '' @ str_nat (length [file_a]) @ '' files to process'') world0"
  from batch_speak_loop_mock [of ?w1]
  obtain v where v: "batch_speak_loop (mock_env 0 completed_status) API_BASE ''out'' ''vivian''
                       ''Auto'' None 1 1 [file_a] [] ?w1
        = Some (Inr [JObj [(''file'', JStr ''a.txt''), (''status'', JStr ''success''),
                           (''output'', JStr ''out/a.wav'')]], v)"
    "fs v = (fs ?w1)(''out/a.wav'' \<mapsto> ''RIFF'')"
    by blast
  show "map_option (\<lambda>(r, v). (r, fs v ''out/a.wav'', fs v ''out/batch_report.json''))
       (cmd_batch_speak (mock_env 0 completed_status) [file_a] ''out'' ''vivian'' ''Auto'' None
          world0)
     = Some (Inr (), Some ''RIFF'',
             Some (dumps (mock_env 0 completed_status)
                     (JArr [JObj [(''file'', JStr ''a.txt''), (''status'', JStr ''success''),
                                  (''output'', JStr ''out/a.wav'')]])))"
    unfolding cmd_batch_speak_def Let_def init_API_BASE path_out
    using v by (simp add: world0_simps)
next
  from batch_clone_loop_mock [of world_ref "''RIFF''"]
  show "map_option fst
       (batch_clone_loop (mock_env 0 completed_status) API_BASE ''out'' ''ref.wav'' None ''Auto''
          1 1 [file_a] [] world_ref)
     = Some (Inr [JObj [(''file'', JStr ''a.txt''), (''status'', JStr ''success'')]])"
    by (auto simp: world_ref_simps)
next
  let ?w2 = "print (''Processing '' @ str_nat (length [file_a]) @ '' files'')
               (print (''Cloning voice from: '' @ ''ref.wav'') world_ref)"
  have ref: "fs ?w2 ''ref.wav'' = Some ''RIFF''" by (simp add: world_ref_simps)
  from batch_clone_loop_mock [OF ref]
  obtain v where v: "batch_clone_loop (mock_env 0 completed_status) API_BASE ''out'' ''ref.wav''
                       None ''Auto'' 1 1 [file_a] [] ?w2
        = Some (Inr [JObj [(''file'', JStr ''a.txt''), (''status'', JStr ''success'')]], v)"
    "fs v = (fs ?w2)(''out/a.wav'' \<mapsto> ''RIFF'')"
    by blast
  have report: "fs world_ref ''out/batch_report.json'' = None"
    by (simp add: world_ref_def world0_simps)
  have one: "str_nat (Suc 0) = ''1''" by code_simp
  show "map_option (\<lambda>(r, v). (r, fs v ''out/a.wav'', fs v ''out/batch_report.json'', last (stdout v)))
       (cmd_batch_clone (mock_env 0 completed_status) [file_a] ''out'' ''ref.wav'' None ''Auto''
          world_ref)
     = Some (Inr (), Some ''RIFF'', None, newline @ ''Complete: 1/1 successful'' @ newline)"
    unfolding cmd_batch_clone_def Let_def init_API_BASE path_out
    using v report
    by (simp add: world_ref_simps path_exists_def count_success_def one)
qed

end
